theory Spec2Isabelle
  imports Main
begin

section \<open>Values, exceptions and the host environment\<close>

text \<open>
  The atoms hold JavaScript values.  The values that JSON can carry are modelled as a
  tree; \<open>JUndefined\<close> is the value of a missing property or option, and \<open>JOpaque\<close>
  stands for the values JSON cannot carry (functions, symbols, BigInt, cyclic objects).
  A number \<open>JNum n\<close> is a JavaScript number that holds the integer \<open>n\<close>; numbers are
  binary64 doubles, and the version counters are such numbers.
\<close>

datatype jsval =
    JUndefined
  | JNull
  | JBool bool
  | JNum int
  | JStr string
  | JArr "jsval list"
  | JObj "(string \<times> jsval) list"
  | JOpaque nat

datatype exn = TypeError | SyntaxError | Error string | Thrown nat

text \<open>
  The increment \<open>n++\<close> of a number that holds an integer.  The sum \<open>n + 1\<close> is rounded
  to the nearest double, a tie going to the even significand.  From \<open>- 2^53\<close> up to
  \<open>2^53 - 1\<close> the sum is a double itself.  Where the magnitude lies between \<open>2^53\<close> and
  \<open>2^54\<close> the doubles are the even integers, the sum lies midway between \<open>n\<close> and
  \<open>n + 2\<close>, and the one with the even half is taken.  Beyond that \<open>n\<close> is the
  nearest double.
\<close>

definition js_increment :: "int \<Rightarrow> int" where
  "js_increment n =
     (if - (2 ^ 53) \<le> n \<and> n < 2 ^ 53 then n + 1
      else if \<bar>n\<bar> < 2 ^ 54 then (if even (n div 2) then n else n + 2)
      else n)"

text \<open>
  Reading a property \<open>v.name\<close> for the names the code reads (value, version, originId):
  on null and undefined the read throws a TypeError, on an object it yields the property
  or undefined, on every other value it yields undefined.
\<close>

fun get_prop :: "jsval \<Rightarrow> string \<Rightarrow> exn + jsval" where
  "get_prop JUndefined n = Inl TypeError"
| "get_prop JNull n = Inl TypeError"
| "get_prop (JObj fs) n = Inr (case map_of fs n of None \<Rightarrow> JUndefined | Some v \<Rightarrow> v)"
| "get_prop v n = Inr JUndefined"

text \<open>
  The storage adapter contract of the repository (interface StorageAdapter), over a
  storage medium of type \<open>'s\<close>.  Every method may throw; a throwing \<open>setItem\<close> hands
  back the medium as it left it.  The optional \<open>watch\<close> only wires the change event.
\<close>

record 's StorageAdapter =
  getItem :: "'s \<Rightarrow> string \<Rightarrow> exn + string option"
  setItem :: "'s \<Rightarrow> string \<Rightarrow> string \<Rightarrow> 's \<times> exn option"
  removeItem :: "'s \<Rightarrow> string \<Rightarrow> 's \<times> exn option"

text \<open>
  What the code takes from its host and from libraries outside the repository is a
  parameter of the model:
  \<^item> \<open>adapters\<close>: the storage adapter objects, named by their identity (a number), the
    key of the registry's WeakMap; \<open>localStorageAdapter\<close> is the default adapter;
  \<^item> \<open>JSON_parse\<close>: JSON.parse, \<open>None\<close> when it throws a SyntaxError;
  \<^item> \<open>JSON_stringify\<close>: JSON.stringify, \<open>None\<close> when it throws (cyclic value, BigInt);
  \<^item> \<open>localeCompare\<close>: String.prototype.localeCompare, \<open>a.localeCompare(b)\<close>;
  \<^item> \<open>strict_equal\<close>: the comparison \<open>===\<close> by which the reactive cell decides
    whether an assignment changes its value (identity on objects);
  \<^item> \<open>NODE_ENV\<close>: process.env.NODE_ENV;
  \<^item> \<open>localTabId\<close>: the identifier generateTabId returned when the module was loaded.
  Every reading of the clock (Date.now) is an argument \<open>time\<close> of the operation that
  reads it.  Console output is not part of the model.
\<close>

record 's host =
  adapters :: "nat \<Rightarrow> 's StorageAdapter"
  localStorageAdapter :: nat
  JSON_parse :: "string \<Rightarrow> jsval option"
  JSON_stringify :: "jsval \<Rightarrow> string option"
  localeCompare :: "string \<Rightarrow> string \<Rightarrow> int"
  strict_equal :: "jsval \<Rightarrow> jsval \<Rightarrow> bool"
  NODE_ENV :: "string option"
  localTabId :: string

section \<open>The debounce utility (utils/debounce.ts)\<close>

text \<open>
  \<open>maxWait = Some None\<close> is an options object that has the key maxWait with the value
  undefined; \<open>maxWait = None\<close> is an options object without the key.
\<close>

record DebounceOptions =
  leading :: "bool option"
  maxWait :: "int option option"
  trailing :: "bool option"

text \<open>The constants of the closure, as \<open>debounce\<close> computes them from its arguments.\<close>

definition leading_of :: "DebounceOptions \<Rightarrow> bool" where
  "leading_of options = (case leading options of None \<Rightarrow> False | Some b \<Rightarrow> b)"

definition trailing_of :: "DebounceOptions \<Rightarrow> bool" where
  "trailing_of options = (case trailing options of None \<Rightarrow> True | Some b \<Rightarrow> b)"

definition maxing :: "DebounceOptions \<Rightarrow> bool" where
  "maxing options = (maxWait options \<noteq> None)"

definition maxWait_of :: "int \<Rightarrow> DebounceOptions \<Rightarrow> int option" where
  "maxWait_of wait options =
     (case maxWait options of
        None \<Rightarrow> None
      | Some m \<Rightarrow> Some (max (case m of None \<Rightarrow> 0 | Some n \<Rightarrow> n) wait))"

text \<open>
  The variables of the closure.  \<open>timerId = Some w\<close> is the handle of a timer that was
  requested with the delay \<open>w\<close>; the host calls \<open>timerExpired\<close> when it fires.  The
  receiver \<open>lastThis\<close> is set and cleared together with \<open>lastArgs\<close> and is left out.
  The wrapped function \<open>func\<close> acts on a state \<open>'w\<close> of its own and returns normally.
\<close>

record ('a, 'r) debounce_state =
  lastArgs :: "'a list option"
  result :: "'r option"
  timerId :: "int option"
  lastCallTime :: "int option"
  lastInvokeTime :: int

text \<open>The variables of the closure that \<open>debounce\<close> returns, as it leaves them.\<close>

definition debounce :: "('a, 'r) debounce_state" where
  "debounce =
     \<lparr>lastArgs = None, result = None, timerId = None, lastCallTime = None, lastInvokeTime = 0\<rparr>"

definition invokeFunc ::
  "('a list \<Rightarrow> 'w \<Rightarrow> 'r option \<times> 'w) \<Rightarrow> int \<Rightarrow> ('a, 'r) debounce_state \<times> 'w
     \<Rightarrow> 'r option \<times> ('a, 'r) debounce_state \<times> 'w" where
  "invokeFunc func time dw =
     (case dw of (d, w) \<Rightarrow>
        (case func (case lastArgs d of None \<Rightarrow> [] | Some args \<Rightarrow> args) w of
           (r, w') \<Rightarrow> (r, d\<lparr>lastArgs := None, lastInvokeTime := time, result := r\<rparr>, w')))"

definition startTimer :: "int \<Rightarrow> ('a, 'r) debounce_state \<Rightarrow> ('a, 'r) debounce_state" where
  "startTimer waitTime d = d\<lparr>timerId := Some waitTime\<rparr>"

definition remainingWait :: "int \<Rightarrow> DebounceOptions \<Rightarrow> ('a, 'r) debounce_state \<Rightarrow> int \<Rightarrow> int" where
  "remainingWait wait options d time =
     (let timeSinceLastCall = time - (case lastCallTime d of None \<Rightarrow> 0 | Some t \<Rightarrow> t);
          timeSinceLastInvoke = time - lastInvokeTime d;
          timeWaiting = wait - timeSinceLastCall
      in case maxWait_of wait options of
           Some m \<Rightarrow> min timeWaiting (m - timeSinceLastInvoke)
         | None \<Rightarrow> timeWaiting)"

definition shouldInvoke :: "int \<Rightarrow> DebounceOptions \<Rightarrow> ('a, 'r) debounce_state \<Rightarrow> int \<Rightarrow> bool" where
  "shouldInvoke wait options d time =
     (let timeSinceLastCall = time - (case lastCallTime d of None \<Rightarrow> 0 | Some t \<Rightarrow> t);
          timeSinceLastInvoke = time - lastInvokeTime d
      in lastCallTime d = None \<or>
         timeSinceLastCall \<ge> wait \<or>
         timeSinceLastCall < 0 \<or>
         (maxing options \<and>
          (case maxWait_of wait options of None \<Rightarrow> False | Some m \<Rightarrow> timeSinceLastInvoke \<ge> m)))"

definition trailingEdge ::
  "('a list \<Rightarrow> 'w \<Rightarrow> 'r option \<times> 'w) \<Rightarrow> DebounceOptions \<Rightarrow> int \<Rightarrow> ('a, 'r) debounce_state \<times> 'w
     \<Rightarrow> 'r option \<times> ('a, 'r) debounce_state \<times> 'w" where
  "trailingEdge func options time dw =
     (case dw of (d, w) \<Rightarrow>
        (let d1 = d\<lparr>timerId := None\<rparr>
         in if trailing_of options \<and> lastArgs d1 \<noteq> None
            then invokeFunc func time (d1, w)
            else (result d1, d1\<lparr>lastArgs := None\<rparr>, w)))"

definition timerExpired ::
  "('a list \<Rightarrow> 'w \<Rightarrow> 'r option \<times> 'w) \<Rightarrow> int \<Rightarrow> DebounceOptions \<Rightarrow> int
     \<Rightarrow> ('a, 'r) debounce_state \<times> 'w \<Rightarrow> ('a, 'r) debounce_state \<times> 'w" where
  "timerExpired func wait options time dw =
     (case dw of (d, w) \<Rightarrow>
        if shouldInvoke wait options d time
        then snd (trailingEdge func options time (d, w))
        else (startTimer (remainingWait wait options d time) d, w))"

definition leadingEdge ::
  "('a list \<Rightarrow> 'w \<Rightarrow> 'r option \<times> 'w) \<Rightarrow> int \<Rightarrow> DebounceOptions \<Rightarrow> int
     \<Rightarrow> ('a, 'r) debounce_state \<times> 'w \<Rightarrow> 'r option \<times> ('a, 'r) debounce_state \<times> 'w" where
  "leadingEdge func wait options time dw =
     (case dw of (d, w) \<Rightarrow>
        (let d1 = startTimer wait (d\<lparr>lastInvokeTime := time\<rparr>)
         in if leading_of options then invokeFunc func time (d1, w) else (result d1, d1, w)))"

definition cancel :: "('a, 'r) debounce_state \<Rightarrow> ('a, 'r) debounce_state" where
  "cancel d = d\<lparr>lastInvokeTime := 0, lastArgs := None, lastCallTime := None, timerId := None\<rparr>"

definition flush ::
  "('a list \<Rightarrow> 'w \<Rightarrow> 'r option \<times> 'w) \<Rightarrow> DebounceOptions \<Rightarrow> int \<Rightarrow> ('a, 'r) debounce_state \<times> 'w
     \<Rightarrow> 'r option \<times> ('a, 'r) debounce_state \<times> 'w" where
  "flush func options time dw =
     (case dw of (d, w) \<Rightarrow>
        if timerId d = None then (result d, d, w) else trailingEdge func options time (d, w))"

definition debounced ::
  "('a list \<Rightarrow> 'w \<Rightarrow> 'r option \<times> 'w) \<Rightarrow> int \<Rightarrow> DebounceOptions \<Rightarrow> int \<Rightarrow> 'a list
     \<Rightarrow> ('a, 'r) debounce_state \<times> 'w \<Rightarrow> 'r option \<times> ('a, 'r) debounce_state \<times> 'w" where
  "debounced func wait options time args dw =
     (case dw of (d, w) \<Rightarrow>
        (let isInvoking = shouldInvoke wait options d time;
             d1 = d\<lparr>lastArgs := Some args, lastCallTime := Some time\<rparr>
         in if isInvoking \<and> timerId d1 = None then leadingEdge func wait options time (d1, w)
            else if isInvoking \<and> maxing options then invokeFunc func time (startTimer wait d1, w)
            else (let d2 = (if timerId d1 = None then startTimer wait d1 else d1)
                  in (result d2, d2, w))))"

section \<open>Atom registry entries (core/atom.ts)\<close>

record AtomConfig =
  key :: string
  defaultValue :: jsval

text \<open>A persisted or remote state \<open>{value, version, originId}\<close>.\<close>

record AtomState =
  st_value :: jsval
  st_version :: int
  st_originId :: string

text \<open>
  The options of the constructor; an absent option is \<open>JUndefined\<close> for the override
  value and \<open>None\<close> for the two others.
\<close>

record AtomRegistryEntryOptions =
  overrideValue :: jsval
  init_originId :: "string option"
  persistent :: "bool option"

type_synonym write_debounce = "(jsval, jsval) debounce_state"

text \<open>
  The private fields of the class.  \<open>signal\<close> is the current value of the reactive cell:
  the constructor always creates the cell and nothing removes it, so the guard of the
  getter never fires.  \<open>debouncedWrite\<close> holds the variables of the debounced writer when
  there is one, \<open>disposeEffect\<close> is defined while the persistence effect is subscribed to
  the cell, and \<open>storage\<close> is the identity of the entry's adapter.
\<close>

record AtomRegistryEntry =
  config :: AtomConfig
  signal :: jsval
  refCount :: int
  version :: int
  originId :: "string option"
  debouncedWrite :: "write_debounce option"
  disposeEffect :: "unit option"
  storage :: nat

text \<open>
  \<open>parsed.version || 0\<close>, for the stored records the cast to AtomState describes: a
  number is kept (zero stays zero), and a missing, null, false or empty version becomes
  0.  The code keeps any other truthy stored version (a string, true, an array, an
  object) in the counter as it is; the counter of the model holds numbers, and reads
  such a stored version as 0.
\<close>

definition version_or_0 :: "jsval \<Rightarrow> int" where
  "version_or_0 v = (case v of JNum n \<Rightarrow> n | _ \<Rightarrow> 0)"

definition AtomRegistryEntry_new ::
  "'s host \<Rightarrow> AtomConfig \<Rightarrow> nat \<Rightarrow> AtomRegistryEntryOptions \<Rightarrow> 's \<Rightarrow> AtomRegistryEntry" where
  "AtomRegistryEntry_new h cfg st options s =
     (let fresh = \<lparr>config = cfg, signal = defaultValue cfg, refCount = 0, version = 0,
                    originId = init_originId options, debouncedWrite = None,
                    disposeEffect = None, storage = st\<rparr>
      in if overrideValue options \<noteq> JUndefined then fresh\<lparr>signal := overrideValue options\<rparr>
         else if persistent options = Some True then
           (case getItem (adapters h st) s (key cfg) of
              Inl e \<Rightarrow> fresh
            | Inr None \<Rightarrow> fresh
            | Inr (Some stored) \<Rightarrow>
                (case JSON_parse h stored of
                   None \<Rightarrow> fresh
                 | Some parsed \<Rightarrow>
                     (case get_prop parsed ''value'' of
                        Inl e \<Rightarrow> fresh
                      | Inr v \<Rightarrow>
                          (case get_prop parsed ''version'' of
                             Inl e \<Rightarrow> fresh
                           | Inr n \<Rightarrow> fresh\<lparr>signal := v, version := version_or_0 n\<rparr>))))
         else fresh)"

text \<open>The object literal that the write path hands to JSON.stringify.\<close>

definition persisted :: "AtomRegistryEntry \<Rightarrow> jsval" where
  "persisted e =
     JObj [(''value'', signal e), (''version'', JNum (version e)),
           (''originId'', case originId e of None \<Rightarrow> JUndefined | Some i \<Rightarrow> JStr i)]"

text \<open>
  The body of the try block of \<open>writeToStorage\<close>: the state it leaves, and the exception
  it raised, if any.  The increment comes first; the serialisation and the adapter's
  \<open>setItem\<close> may throw.
\<close>

definition writeToStorage_try ::
  "'s host \<Rightarrow> AtomRegistryEntry \<times> 's \<Rightarrow> (AtomRegistryEntry \<times> 's) \<times> exn option" where
  "writeToStorage_try h es =
     (case es of (e, s) \<Rightarrow>
        (let e1 = e\<lparr>version := js_increment (version e)\<rparr>
         in case JSON_stringify h (persisted e1) of
              None \<Rightarrow> ((e1, s), Some TypeError)
            | Some text \<Rightarrow>
                (case setItem (adapters h (storage e1)) s (key (config e1)) text of
                   (s', r) \<Rightarrow> ((e1, s'), r))))"

text \<open>The catch block reports the exception on the console and returns.\<close>

definition writeToStorage :: "'s host \<Rightarrow> AtomRegistryEntry \<times> 's \<Rightarrow> AtomRegistryEntry \<times> 's" where
  "writeToStorage h es = fst (writeToStorage_try h es)"

text \<open>\<open>debounce(writeToStorage, 100, { trailing: true })\<close>: the arguments of the writer.\<close>

definition write_func ::
  "'s host \<Rightarrow> jsval list \<Rightarrow> AtomRegistryEntry \<times> 's \<Rightarrow> jsval option \<times> AtomRegistryEntry \<times> 's" where
  "write_func h args es = (None, writeToStorage h es)"

definition write_wait :: int where
  "write_wait = 100"

definition write_options :: DebounceOptions where
  "write_options = \<lparr>leading = None, maxWait = None, trailing = Some True\<rparr>"

text \<open>
  \<open>this.#debouncedWrite?.()\<close>, the body of the persistence effect (which also reads the
  cell): a call of the debounced writer when there is one.  The writer's variables are
  put back into the entry that the wrapped function left.
\<close>

definition persistence_effect ::
  "'s host \<Rightarrow> int \<Rightarrow> AtomRegistryEntry \<times> 's \<Rightarrow> AtomRegistryEntry \<times> 's" where
  "persistence_effect h time es =
     (case es of (e, s) \<Rightarrow>
        (case debouncedWrite e of
           None \<Rightarrow> (e, s)
         | Some d \<Rightarrow>
             (case debounced (write_func h) write_wait write_options time [] (d, (e, s)) of
                (r, d', e', s') \<Rightarrow> (e'\<lparr>debouncedWrite := Some d'\<rparr>, s'))))"

text \<open>
  Modelled from the spec: the reactive cell and its effects belong to the signals
  library, which is not part of the repository.  The specification has the effect run
  "on every change to the value": an assignment that changes the value (the new value
  is not \<open>===\<close> the old one) runs the subscribed persistence effect at once; an
  assignment of the same value runs nothing.
\<close>

definition signal_set ::
  "'s host \<Rightarrow> int \<Rightarrow> jsval \<Rightarrow> AtomRegistryEntry \<times> 's \<Rightarrow> AtomRegistryEntry \<times> 's" where
  "signal_set h time v es =
     (case es of (e, s) \<Rightarrow>
        if \<not> strict_equal h (signal e) v \<and> disposeEffect e \<noteq> None
        then persistence_effect h time (e\<lparr>signal := v\<rparr>, s)
        else (e\<lparr>signal := v\<rparr>, s))"

text \<open>
  \<open>setupPersistence\<close> creates the debounced writer and the effect.  An effect of the
  library runs its body once when it is created, then after every change.
\<close>

definition setupPersistence ::
  "'s host \<Rightarrow> int \<Rightarrow> AtomRegistryEntry \<times> 's \<Rightarrow> AtomRegistryEntry \<times> 's" where
  "setupPersistence h time es =
     (case es of (e, s) \<Rightarrow>
        (case persistence_effect h time (e\<lparr>debouncedWrite := Some debounce\<rparr>, s) of
           (e', s') \<Rightarrow> (e'\<lparr>disposeEffect := Some ()\<rparr>, s')))"

text \<open>\<open>this.#debouncedWrite?.flush()\<close>.\<close>

definition AtomRegistryEntry_flush ::
  "'s host \<Rightarrow> int \<Rightarrow> AtomRegistryEntry \<times> 's \<Rightarrow> AtomRegistryEntry \<times> 's" where
  "AtomRegistryEntry_flush h time es =
     (case es of (e, s) \<Rightarrow>
        (case debouncedWrite e of
           None \<Rightarrow> (e, s)
         | Some d \<Rightarrow>
             (case flush (write_func h) write_options time (d, (e, s)) of
                (r, d', e', s') \<Rightarrow> (e'\<lparr>debouncedWrite := Some d'\<rparr>, s'))))"

definition cleanupPersistence ::
  "'s host \<Rightarrow> int \<Rightarrow> AtomRegistryEntry \<times> 's \<Rightarrow> AtomRegistryEntry \<times> 's" where
  "cleanupPersistence h time es =
     (case AtomRegistryEntry_flush h time es of
        (e', s') \<Rightarrow> (e'\<lparr>debouncedWrite := None, disposeEffect := None\<rparr>, s'))"

definition mount :: "'s host \<Rightarrow> int \<Rightarrow> AtomRegistryEntry \<times> 's \<Rightarrow> AtomRegistryEntry \<times> 's" where
  "mount h time es =
     (case es of (e, s) \<Rightarrow>
        (let e1 = e\<lparr>refCount := refCount e + 1\<rparr>
         in if refCount e1 = 1 then setupPersistence h time (e1, s) else (e1, s)))"

definition unmount :: "'s host \<Rightarrow> int \<Rightarrow> AtomRegistryEntry \<times> 's \<Rightarrow> AtomRegistryEntry \<times> 's" where
  "unmount h time es =
     (case es of (e, s) \<Rightarrow>
        (let e1 = e\<lparr>refCount := refCount e - 1\<rparr>
         in if refCount e1 = 0 then cleanupPersistence h time (e1, s) else (e1, s)))"

definition dispose :: "'s host \<Rightarrow> int \<Rightarrow> AtomRegistryEntry \<times> 's \<Rightarrow> AtomRegistryEntry \<times> 's" where
  "dispose h time es = cleanupPersistence h time es"

text \<open>The local variable \<open>shouldUpdate\<close> of \<open>syncWith\<close>, at the point where it is tested.\<close>

definition shouldUpdate :: "'s host \<Rightarrow> AtomRegistryEntry \<Rightarrow> AtomState \<Rightarrow> bool" where
  "shouldUpdate h e remoteState =
     (let remoteVersion = st_version remoteState; localVersion = version e
      in if remoteVersion > localVersion then True
         else if remoteVersion = localVersion then
           (case originId e of
              None \<Rightarrow> False
            | Some i \<Rightarrow> i \<noteq> [] \<and> localeCompare h (st_originId remoteState) i > 0)
         else False)"

definition syncWith ::
  "'s host \<Rightarrow> int \<Rightarrow> AtomState \<Rightarrow> AtomRegistryEntry \<times> 's \<Rightarrow> AtomRegistryEntry \<times> 's" where
  "syncWith h time remoteState es =
     (if shouldUpdate h (fst es) remoteState
      then (case signal_set h time (st_value remoteState) es of
              (e', s') \<Rightarrow> (e'\<lparr>version := st_version remoteState\<rparr>, s'))
      else es)"

text \<open>The host fires the timer of the entry's debounced writer.\<close>

definition timer_fires ::
  "'s host \<Rightarrow> int \<Rightarrow> AtomRegistryEntry \<times> 's \<Rightarrow> AtomRegistryEntry \<times> 's" where
  "timer_fires h time es =
     (case es of (e, s) \<Rightarrow>
        (case debouncedWrite e of
           None \<Rightarrow> (e, s)
         | Some d \<Rightarrow>
             (case timerExpired (write_func h) write_wait write_options time (d, (e, s)) of
                (d', e', s') \<Rightarrow> (e'\<lparr>debouncedWrite := Some d'\<rparr>, s'))))"

text \<open>A sequence of lifecycle calls on one entry, each with the time at which it is made.\<close>

datatype lifecycle_call = Mount int | Unmount int

fun lifecycle ::
  "'s host \<Rightarrow> lifecycle_call list \<Rightarrow> AtomRegistryEntry \<times> 's \<Rightarrow> AtomRegistryEntry \<times> 's" where
  "lifecycle h [] es = es"
| "lifecycle h (Mount t # cs) es = lifecycle h cs (mount h t es)"
| "lifecycle h (Unmount t # cs) es = lifecycle h cs (unmount h t es)"

fun net_count :: "lifecycle_call list \<Rightarrow> int" where
  "net_count [] = 0"
| "net_count (Mount t # cs) = net_count cs + 1"
| "net_count (Unmount t # cs) = net_count cs - 1"

text \<open>A debounced write is pending: a call is recorded and its timer is armed.\<close>

definition write_pending :: "AtomRegistryEntry \<Rightarrow> bool" where
  "write_pending e =
     (case debouncedWrite e of
        None \<Rightarrow> False
      | Some d \<Rightarrow> timerId d \<noteq> None \<and> lastArgs d \<noteq> None)"

section \<open>The registry (core/atom.ts)\<close>

text \<open>
  The state of the module: the storage medium behind the adapters, and
  \<open>storageRegistryMap\<close>, from the identity of an adapter to its map from keys to entries.
\<close>

record 's world =
  medium :: 's
  storageRegistryMap :: "nat \<Rightarrow> (string \<Rightarrow> AtomRegistryEntry option) option"

definition getRegistryForStorage ::
  "'s world \<Rightarrow> nat \<Rightarrow> (string \<Rightarrow> AtomRegistryEntry option) \<times> 's world" where
  "getRegistryForStorage w st =
     (case storageRegistryMap w st of
        None \<Rightarrow> (Map.empty, w\<lparr>storageRegistryMap := (storageRegistryMap w)(st \<mapsto> Map.empty)\<rparr>)
      | Some m \<Rightarrow> (m, w))"

text \<open>
  \<open>acquireEntry\<close>.  The key is a string by its type.  Outside production builds the two
  default values are serialised for the comparison behind the warning, and JSON.stringify
  may throw there; the warning itself is console output.
\<close>

definition acquireEntry ::
  "'s host \<Rightarrow> AtomConfig \<Rightarrow> nat \<Rightarrow> AtomRegistryEntryOptions \<Rightarrow> 's world
     \<Rightarrow> exn + (AtomRegistryEntry \<times> 's world)" where
  "acquireEntry h atomConfig st initOptions w =
     (if key atomConfig = [] then Inl (Error ''[persistent-signals] Atom key must be a non-empty string.'')
      else
        (case getRegistryForStorage w st of (atomRegistry, w1) \<Rightarrow>
           (case atomRegistry (key atomConfig) of
              Some existingEntry \<Rightarrow>
                if NODE_ENV h \<noteq> Some ''production'' then
                  (case JSON_stringify h (defaultValue (config existingEntry)) of
                     None \<Rightarrow> Inl TypeError
                   | Some oldDefault \<Rightarrow>
                       (case JSON_stringify h (defaultValue atomConfig) of
                          None \<Rightarrow> Inl TypeError
                        | Some newDefault \<Rightarrow> Inr (existingEntry, w1)))
                else Inr (existingEntry, w1)
            | None \<Rightarrow>
                (let newEntry = AtomRegistryEntry_new h atomConfig st initOptions (medium w1)
                 in Inr (newEntry,
                         w1\<lparr>storageRegistryMap :=
                              (storageRegistryMap w1)(st \<mapsto> atomRegistry(key atomConfig \<mapsto> newEntry))\<rparr>)))))"

definition getRegistryFrom :: "'s world \<Rightarrow> nat \<Rightarrow> (string \<Rightarrow> AtomRegistryEntry option) option" where
  "getRegistryFrom w st = storageRegistryMap w st"

definition getAtomEntryFrom :: "'s world \<Rightarrow> nat \<Rightarrow> string \<Rightarrow> AtomRegistryEntry option" where
  "getAtomEntryFrom w st k = (case storageRegistryMap w st of None \<Rightarrow> None | Some m \<Rightarrow> m k)"

section \<open>The cross-tab sync handler (core/storage.ts)\<close>

text \<open>A storage event: its key and its new value, each of which may be null.\<close>

record StorageEvent =
  event_key :: "string option"
  newValue :: "string option"

text \<open>
  How a call of the handler ended: at one of its return statements before the merge, or
  after it has called \<open>syncWith\<close> on the entry.
\<close>

datatype handled = Returned | Merged

definition handleStorageChange ::
  "'s host \<Rightarrow> int \<Rightarrow> StorageEvent \<Rightarrow> 's world \<Rightarrow> exn + (handled \<times> 's world)" where
  "handleStorageChange h time event w =
     (case event_key event of
        None \<Rightarrow> Inr (Returned, w)
      | Some k \<Rightarrow>
          if k = [] then Inr (Returned, w)
          else
            (case newValue event of
               None \<Rightarrow> Inr (Returned, w)
             | Some text \<Rightarrow>
                 (case getAtomEntryFrom w (localStorageAdapter h) k of
                    None \<Rightarrow> Inr (Returned, w)
                  | Some entry \<Rightarrow>
                      (case JSON_parse h text of
                         None \<Rightarrow> Inr (Returned, w)
                       | Some remoteState \<Rightarrow>
                           (case get_prop remoteState ''value'' of
                              Inl x \<Rightarrow> Inl x
                            | Inr v \<Rightarrow>
                                if v = JUndefined then Inr (Returned, w)
                                else
                                  (case get_prop remoteState ''version'' of
                                     Inl x \<Rightarrow> Inl x
                                   | Inr (JNum n) \<Rightarrow>
                                       (case get_prop remoteState ''originId'' of
                                          Inl x \<Rightarrow> Inl x
                                        | Inr (JStr i) \<Rightarrow>
                                            if i = localTabId h then Inr (Returned, w)
                                            else
                                              (case syncWith h time
                                                      \<lparr>st_value = v, st_version = n, st_originId = i\<rparr>
                                                      (entry, medium w) of
                                                 (e', s') \<Rightarrow>
                                                   Inr (Merged,
                                                        w\<lparr>medium := s',
                                                           storageRegistryMap :=
                                                             (storageRegistryMap w)
                                                               (localStorageAdapter h \<mapsto>
                                                                  (case storageRegistryMap w (localStorageAdapter h) of
                                                                     None \<Rightarrow> Map.empty
                                                                   | Some m \<Rightarrow> m)(k \<mapsto> e'))\<rparr>))
                                        | Inr other \<Rightarrow> Inr (Returned, w))
                                   | Inr other \<Rightarrow> Inr (Returned, w)))))))"

section \<open>Predicates of the statements\<close>

text \<open>Persistence is active: the entry has its debounced writer and its subscribed effect.\<close>

definition persistence_active :: "AtomRegistryEntry \<Rightarrow> bool" where
  "persistence_active e = (debouncedWrite e \<noteq> None \<and> disposeEffect e \<noteq> None)"

text \<open>
  The invariant of the lifecycle: with a positive reference count persistence is active,
  otherwise the entry has neither writer nor effect.
\<close>

definition lifecycle_inv :: "AtomRegistryEntry \<Rightarrow> bool" where
  "lifecycle_inv e =
     (if 0 < refCount e then persistence_active e
      else debouncedWrite e = None \<and> disposeEffect e = None)"

text \<open>
  The invariant of the debounced writer: a recorded call has its timer armed, so a flush
  never passes over a recorded call.
\<close>

definition writer_inv :: "AtomRegistryEntry \<Rightarrow> bool" where
  "writer_inv e =
     (case debouncedWrite e of
        None \<Rightarrow> True
      | Some d \<Rightarrow> lastArgs d = None \<or> timerId d \<noteq> None)"

section \<open>A concrete host for the examples\<close>

text \<open>
  The medium of the examples is a list of pairs, read from the front.  \<open>mem_adapter\<close>
  always stores; \<open>quota_adapter\<close> has room for one item and throws when it is full.
\<close>

type_synonym mem = "(string \<times> string) list"

definition mem_adapter :: "mem StorageAdapter" where
  "mem_adapter =
     \<lparr>getItem = (\<lambda>s k. Inr (map_of s k)),
      setItem = (\<lambda>s k v. ((k, v) # s, None)),
      removeItem = (\<lambda>s k. (filter (\<lambda>p. fst p \<noteq> k) s, None))\<rparr>"

definition quota_adapter :: "mem StorageAdapter" where
  "quota_adapter =
     \<lparr>getItem = (\<lambda>s k. Inr (map_of s k)),
      setItem = (\<lambda>s k v. if length s < 1 then ((k, v) # s, None) else (s, Some (Thrown 22))),
      removeItem = (\<lambda>s k. (filter (\<lambda>p. fst p \<noteq> k) s, None))\<rparr>"

text \<open>The comparison of two strings character by character, as a comparator.\<close>

fun lex_compare :: "string \<Rightarrow> string \<Rightarrow> int" where
  "lex_compare [] [] = 0"
| "lex_compare [] (b # bs) = - 1"
| "lex_compare (a # as) [] = 1"
| "lex_compare (a # as) (b # bs) =
     (if (of_char a :: nat) < of_char b then - 1
      else if (of_char b :: nat) < of_char a then 1
      else lex_compare as bs)"

text \<open>
  The JSON texts of the examples with the values they denote.  The example host parses
  and serialises by this table; it cannot serialise the values outside JSON.
\<close>

definition demo_texts :: "(string \<times> jsval) list" where
  \<open>demo_texts =
     [(''null'', JNull),
      (''0'', JNum 0),
      (''{"value":0,"version":1,"originId":"tabA"}'',
         JObj [(''value'', JNum 0), (''version'', JNum 1), (''originId'', JStr ''tabA'')]),
      (''{"value":0,"version":2,"originId":"tabA"}'',
         JObj [(''value'', JNum 0), (''version'', JNum 2), (''originId'', JStr ''tabA'')]),
      (''{"value":7,"version":5,"originId":"tabA"}'',
         JObj [(''value'', JNum 7), (''version'', JNum 5), (''originId'', JStr ''tabA'')]),
      (''{"value":7,"version":5,"originId":"tabB"}'',
         JObj [(''value'', JNum 7), (''version'', JNum 5), (''originId'', JStr ''tabB'')]),
      (''{"value":7,"version":6,"originId":"tabA"}'',
         JObj [(''value'', JNum 7), (''version'', JNum 6), (''originId'', JStr ''tabA'')]),
      (''{"value":0,"version":9007199254740992,"originId":"tabA"}'',
         JObj [(''value'', JNum 0), (''version'', JNum 9007199254740992),
               (''originId'', JStr ''tabA'')]),
      (''{"value":0,"version":9007199254740992,"originId":"tabB"}'',
         JObj [(''value'', JNum 0), (''version'', JNum 9007199254740992),
               (''originId'', JStr ''tabB'')])]\<close>

fun demo_stringify :: "jsval \<Rightarrow> string option" where
  "demo_stringify (JOpaque n) = None"
| "demo_stringify v = map_of (map (\<lambda>p. (snd p, fst p)) demo_texts) v"

definition demo_host :: "mem host" where
  "demo_host =
     \<lparr>adapters = (\<lambda>n. if n = 0 then mem_adapter else quota_adapter),
      localStorageAdapter = 0,
      JSON_parse = map_of demo_texts,
      JSON_stringify = demo_stringify,
      localeCompare = lex_compare,
      strict_equal = (=),
      NODE_ENV = Some ''development'',
      localTabId = ''tabA''\<rparr>"

definition demo_config :: AtomConfig where
  "demo_config = \<lparr>key = ''counter'', defaultValue = JNum 0\<rparr>"

definition demo_options :: AtomRegistryEntryOptions where
  "demo_options = \<lparr>overrideValue = JUndefined, init_originId = Some ''tabA'', persistent = Some True\<rparr>"

text \<open>A fresh entry of tab "tabA" on the default adapter, with an empty medium.\<close>

definition demo_entry :: AtomRegistryEntry where
  "demo_entry = AtomRegistryEntry_new demo_host demo_config 0 demo_options []"

text \<open>The entry mounted at time 0, after the timer of its first write has fired at 100.\<close>

definition demo_mounted :: "AtomRegistryEntry \<times> mem" where
  "demo_mounted = timer_fires demo_host 100 (mount demo_host 0 (demo_entry, []))"

text \<open>A state written by another tab, "tabB", with a newer version.\<close>

definition demo_remote :: AtomState where
  "demo_remote = \<lparr>st_value = JNum 7, st_version = 5, st_originId = ''tabB''\<rparr>"

text \<open>Entries created with the empty string as origin id, and without an origin id.\<close>

definition empty_id_entry :: AtomRegistryEntry where
  "empty_id_entry =
     AtomRegistryEntry_new demo_host demo_config 0
       \<lparr>overrideValue = JUndefined, init_originId = Some [], persistent = None\<rparr> []"

definition no_id_entry :: AtomRegistryEntry where
  "no_id_entry =
     AtomRegistryEntry_new demo_host demo_config 0
       \<lparr>overrideValue = JUndefined, init_originId = None, persistent = None\<rparr> []"

text \<open>A remote state of "tabB" whose version is that of a fresh entry.\<close>

definition tie_remote :: AtomState where
  "tie_remote = \<lparr>st_value = JNum 7, st_version = 0, st_originId = ''tabB''\<rparr>"

text \<open>An entry on the adapter with a quota, created while the medium is full.\<close>

definition quota_entry :: AtomRegistryEntry where
  "quota_entry = AtomRegistryEntry_new demo_host demo_config 1 demo_options [(''other'', ''x'')]"

text \<open>An entry whose value JSON cannot carry.\<close>

definition opaque_entry :: AtomRegistryEntry where
  "opaque_entry =
     AtomRegistryEntry_new demo_host demo_config 0
       \<lparr>overrideValue = JOpaque 1, init_originId = Some ''tabA'', persistent = Some True\<rparr> []"

text \<open>The module state in which the mounted entry is registered under the default adapter.\<close>

definition demo_world :: "mem world" where
  "demo_world =
     \<lparr>medium = snd demo_mounted,
      storageRegistryMap = [0 \<mapsto> [''counter'' \<mapsto> fst demo_mounted]]\<rparr>"

definition empty_world :: "mem world" where
  "empty_world = \<lparr>medium = [], storageRegistryMap = Map.empty\<rparr>"

text \<open>
  An atom whose default value is a BigInt, the entry that the first \<open>acquireEntry\<close>
  creates for it, and the module state after that call.
\<close>

definition bigint_config :: AtomConfig where
  "bigint_config = \<lparr>key = ''total'', defaultValue = JOpaque 0\<rparr>"

definition bigint_entry :: AtomRegistryEntry where
  "bigint_entry =
     \<lparr>config = bigint_config, signal = JOpaque 0, refCount = 0, version = 0,
      originId = Some ''tabA'', debouncedWrite = None, disposeEffect = None, storage = 0\<rparr>"

definition bigint_world :: "mem world" where
  "bigint_world = \<lparr>medium = [], storageRegistryMap = [0 \<mapsto> [''total'' \<mapsto> bigint_entry]]\<rparr>"

text \<open>
  An entry created from a stored record whose version is \<open>2^53\<close>, on the adapter with a
  quota, while the medium is full.
\<close>

definition big_entry :: AtomRegistryEntry where
  \<open>big_entry =
     AtomRegistryEntry_new demo_host demo_config 1 demo_options
       [(''counter'', ''{"value":0,"version":9007199254740992,"originId":"tabB"}'')]\<close>

text \<open>
  A wrapped function that counts its invocations, and two runs of a debounced function
  over it.  In \<open>clamp_run\<close> the options are leading with maxWait 50, the wait is 100, and
  there is one call, at 0.  In \<open>idle_run\<close> the options are maxWait 150 alone, the wait is
  100: a call at 0 (\<open>idle_called\<close>), its timer firing at 100 (\<open>idle_fired\<close>), and a
  call at 1000.
\<close>

definition count_func :: "jsval list \<Rightarrow> nat \<Rightarrow> jsval option \<times> nat" where
  "count_func args n = (None, Suc n)"

definition leading_maxWait50 :: DebounceOptions where
  "leading_maxWait50 = \<lparr>leading = Some True, maxWait = Some (Some 50), trailing = None\<rparr>"

definition maxWait150 :: DebounceOptions where
  "maxWait150 = \<lparr>leading = None, maxWait = Some (Some 150), trailing = None\<rparr>"

definition clamp_run :: "(jsval, jsval) debounce_state \<times> nat" where
  "clamp_run = snd (debounced count_func 100 leading_maxWait50 0 [] (debounce, 0))"

definition idle_called :: "(jsval, jsval) debounce_state \<times> nat" where
  "idle_called = snd (debounced count_func 100 maxWait150 0 [] (debounce, 0))"

definition idle_fired :: "(jsval, jsval) debounce_state \<times> nat" where
  "idle_fired = timerExpired count_func 100 maxWait150 100 idle_called"

definition idle_run :: "(jsval, jsval) debounce_state \<times> nat" where
  "idle_run = snd (debounced count_func 100 maxWait150 1000 [] idle_fired)"

section \<open>Unfolding rules\<close>

lemmas demo_defs = demo_mounted_def demo_entry_def demo_options_def demo_config_def demo_host_def
  demo_remote_def mem_adapter_def quota_adapter_def demo_texts_def

lemmas entry_defs = AtomRegistryEntry_new_def mount_def unmount_def setupPersistence_def
  cleanupPersistence_def AtomRegistryEntry_flush_def persistence_effect_def timer_fires_def
  syncWith_def shouldUpdate_def signal_set_def writeToStorage_def writeToStorage_try_def
  persisted_def write_func_def write_wait_def write_options_def write_pending_def
  js_increment_def

lemmas debounce_defs = debounce_def debounced_def timerExpired_def trailingEdge_def leadingEdge_def
  invokeFunc_def startTimer_def shouldInvoke_def remainingWait_def flush_def leading_of_def
  trailing_of_def maxing_def maxWait_of_def

section \<open>The debounced writer of an entry\<close>

lemma write_config [simp]:
  "leading_of write_options = False" "trailing_of write_options = True"
  "maxing write_options = False" "maxWait_of w write_options = None"
  by (simp_all add: leading_of_def trailing_of_def maxing_def maxWait_of_def write_options_def)

text \<open>
  With the writer's options (trailing only, no maxWait) a call of the debounced function
  never invokes the wrapped function: it records the call and leaves a timer armed.
\<close>

lemma debounced_write:
  "debounced (write_func h) write_wait write_options time args (d, w) =
     (result d,
      (if timerId d = None
       then (if shouldInvoke write_wait write_options d time
             then d\<lparr>lastArgs := Some args, lastCallTime := Some time, lastInvokeTime := time,
                    timerId := Some write_wait\<rparr>
             else d\<lparr>lastArgs := Some args, lastCallTime := Some time, timerId := Some write_wait\<rparr>)
       else d\<lparr>lastArgs := Some args, lastCallTime := Some time\<rparr>),
      w)"
  by (simp add: debounced_def leadingEdge_def startTimer_def Let_def)

lemma flush_write:
  "flush (write_func h) write_options time (d, (e, s)) =
     (if timerId d = None then (result d, d, (e, s))
      else if lastArgs d \<noteq> None
      then (None, d\<lparr>timerId := None, lastArgs := None, lastInvokeTime := time, result := None\<rparr>,
            writeToStorage h (e, s))
      else (result d, d\<lparr>timerId := None, lastArgs := None\<rparr>, (e, s)))"
  by (cases "timerId d"; cases "lastArgs d")
     (auto simp: flush_def trailingEdge_def invokeFunc_def write_func_def)

lemma persistence_effect_frame:
  "\<exists>dw. persistence_effect h time (e, s) = (e\<lparr>debouncedWrite := dw\<rparr>, s) \<and>
        (debouncedWrite e = None \<longleftrightarrow> dw = None)"
  by (cases "debouncedWrite e")
     (auto simp: persistence_effect_def debounced_write intro: exI[of _ "debouncedWrite e"])

section \<open>The write path\<close>

lemma writeToStorage_result:
  "\<exists>s'. writeToStorage h (e, s) = (e\<lparr>version := js_increment (version e)\<rparr>, s')"
  by (auto simp: writeToStorage_def writeToStorage_try_def Let_def split: option.splits prod.splits)

lemma writeToStorage_debouncedWrite:
  "writeToStorage h (e\<lparr>debouncedWrite := x\<rparr>, s) =
     ((fst (writeToStorage h (e, s)))\<lparr>debouncedWrite := x\<rparr>, snd (writeToStorage h (e, s)))"
  by (auto simp: writeToStorage_def writeToStorage_try_def persisted_def Let_def
           split: option.splits prod.splits)

text \<open>Where the increment adds one, and where it does not.\<close>

lemma js_increment_exact:
  "- (2 ^ 53) \<le> n \<Longrightarrow> n < 2 ^ 53 \<Longrightarrow> js_increment n = n + 1"
  by (simp add: js_increment_def)

lemma js_increment_twice:
  "- (2 ^ 53) \<le> n \<Longrightarrow> n < 2 ^ 53 - 1 \<Longrightarrow> js_increment (js_increment n) = n + 2"
  by (simp add: js_increment_def)

lemma js_increment_stuck:
  "js_increment (2 ^ 53) = 2 ^ 53"
  by (simp add: js_increment_def)

text \<open>
  Claim C6, as the code has it.  When the write path fails, because the serialisation or
  the adapter's \<open>setItem\<close> throws, the exception stays inside \<open>writeToStorage\<close>: the call
  returns, and the entry is the one before the call with its version incremented, so the
  value in memory is unchanged.  The increment is that of a double: for a version from
  \<open>- 2^53\<close> up to \<open>2^53 - 1\<close> it adds one and stands after the failure.  The next write
  that succeeds, from any later state of the entry that still has the version the failed
  write left (its value may have changed), stores the state under that version
  incremented once more, which is the original version plus two when the original
  version is below \<open>2^53 - 1\<close>.
\<close>

theorem writeToStorage_failure_caught:
  assumes "snd (writeToStorage_try h (e, s)) = Some x"
  shows "fst (writeToStorage h (e, s)) = e\<lparr>version := js_increment (version e)\<rparr> \<and>
         signal (fst (writeToStorage h (e, s))) = signal e \<and>
         (\<forall>n. js_increment n =
                (if - (2 ^ 53) \<le> n \<and> n < 2 ^ 53 then n + 1
                 else if \<bar>n\<bar> < 2 ^ 54 then (if even (n div 2) then n else n + 2)
                 else n)) \<and>
         (- (2 ^ 53) \<le> version e \<and> version e < 2 ^ 53 \<longrightarrow>
            version (fst (writeToStorage h (e, s))) = version e + 1) \<and>
         (\<forall>e2 s2 text s3.
            version e2 = version (fst (writeToStorage h (e, s))) \<and>
            JSON_stringify h (persisted (e2\<lparr>version := js_increment (version e2)\<rparr>)) = Some text \<and>
            setItem (adapters h (storage e2)) s2 (key (config e2)) text = (s3, None) \<longrightarrow>
            writeToStorage_try h (e2, s2) =
              ((e2\<lparr>version := js_increment (js_increment (version e))\<rparr>, s3), None) \<and>
            get_prop (persisted (e2\<lparr>version := js_increment (version e2)\<rparr>)) ''version'' =
              Inr (JNum (js_increment (js_increment (version e)))) \<and>
            (- (2 ^ 53) \<le> version e \<and> version e < 2 ^ 53 - 1 \<longrightarrow>
               js_increment (js_increment (version e)) = version e + 2))"
proof -
  obtain s' where w: "writeToStorage h (e, s) = (e\<lparr>version := js_increment (version e)\<rparr>, s')"
    using writeToStorage_result [of h e s] by blast
  have later: "writeToStorage_try h (ea, sa) =
                 ((ea\<lparr>version := js_increment (js_increment (version e))\<rparr>, sb), None)"
    if "version ea = js_increment (version e)"
      and "JSON_stringify h (persisted (ea\<lparr>version := js_increment (version ea)\<rparr>)) = Some str"
      and "setItem (adapters h (storage ea)) sa (key (config ea)) str = (sb, None)" for ea sa str sb
    using that by (simp add: writeToStorage_try_def Let_def)
  have field: "get_prop (persisted (ea\<lparr>version := js_increment (version ea)\<rparr>)) ''version'' =
                 Inr (JNum (js_increment (js_increment (version e))))"
    if "version ea = js_increment (version e)" for ea
    using that by (simp add: persisted_def)
  have pin: "\<forall>n. js_increment n =
                (if - (2 ^ 53) \<le> n \<and> n < 2 ^ 53 then n + 1
                 else if \<bar>n\<bar> < 2 ^ 54 then (if even (n div 2) then n else n + 2)
                 else n)"
    by (simp only: js_increment_def) simp
  have old: "fst (writeToStorage h (e, s)) = e\<lparr>version := js_increment (version e)\<rparr> \<and>
         signal (fst (writeToStorage h (e, s))) = signal e"
    using w by simp
  have rest: "(- (2 ^ 53) \<le> version e \<and> version e < 2 ^ 53 \<longrightarrow>
            version (fst (writeToStorage h (e, s))) = version e + 1) \<and>
         (\<forall>e2 s2 text s3.
            version e2 = version (fst (writeToStorage h (e, s))) \<and>
            JSON_stringify h (persisted (e2\<lparr>version := js_increment (version e2)\<rparr>)) = Some text \<and>
            setItem (adapters h (storage e2)) s2 (key (config e2)) text = (s3, None) \<longrightarrow>
            writeToStorage_try h (e2, s2) =
              ((e2\<lparr>version := js_increment (js_increment (version e))\<rparr>, s3), None) \<and>
            get_prop (persisted (e2\<lparr>version := js_increment (version e2)\<rparr>)) ''version'' =
              Inr (JNum (js_increment (js_increment (version e)))) \<and>
            (- (2 ^ 53) \<le> version e \<and> version e < 2 ^ 53 - 1 \<longrightarrow>
               js_increment (js_increment (version e)) = version e + 2))"
    using w later field by (auto simp: js_increment_exact js_increment_twice)
  from old pin rest show ?thesis by (intro conjI) (erule conjunct1 conjunct2 | assumption)+
qed

text \<open>
  On the example host: a write into the full medium throws error 22 in \<open>setItem\<close>, and a
  value outside JSON throws in the serialisation; both leave the version at 1.  After
  the first, the next write into an empty medium stores version 2; after the second, the
  value is set to 0 and the next write stores version 2.
\<close>

theorem writeToStorage_failure_caught_witness:
  \<open>snd (writeToStorage_try demo_host (quota_entry, [(''other'', ''x'')])) = Some (Thrown 22) \<and>
   writeToStorage demo_host (quota_entry, [(''other'', ''x'')])
     = (quota_entry\<lparr>version := 1\<rparr>, [(''other'', ''x'')]) \<and>
   writeToStorage_try demo_host (quota_entry\<lparr>version := 1\<rparr>, [])
     = ((quota_entry\<lparr>version := 2\<rparr>, [(''counter'', ''{"value":0,"version":2,"originId":"tabA"}'')]), None) \<and>
   snd (writeToStorage_try demo_host (opaque_entry, [])) = Some TypeError \<and>
   fst (writeToStorage demo_host (opaque_entry, [])) = opaque_entry\<lparr>version := 1\<rparr> \<and>
   writeToStorage_try demo_host (opaque_entry\<lparr>version := 1, signal := JNum 0\<rparr>, [])
     = ((opaque_entry\<lparr>version := 2, signal := JNum 0\<rparr>,
         [(''counter'', ''{"value":0,"version":2,"originId":"tabA"}'')]), None)\<close>
proof -
  have q: "quota_entry =
     \<lparr>config = demo_config, signal = JNum 0, refCount = 0, version = 0, originId = Some ''tabA'',
      debouncedWrite = None, disposeEffect = None, storage = 1\<rparr>"
    by (simp add: quota_entry_def demo_defs AtomRegistryEntry_new_def)
  have o: "opaque_entry =
     \<lparr>config = demo_config, signal = JOpaque 1, refCount = 0, version = 0, originId = Some ''tabA'',
      debouncedWrite = None, disposeEffect = None, storage = 0\<rparr>"
    by (simp add: opaque_entry_def demo_defs AtomRegistryEntry_new_def)
  have inc: "js_increment 0 = 1" "js_increment 1 = 2" by (simp_all add: js_increment_def)
  let ?full = "[(''other'', ''x'')]"
  let ?q1 = "quota_entry\<lparr>version := 1\<rparr>"
  let ?o1 = "opaque_entry\<lparr>version := 1, signal := JNum 0\<rparr>"
  have 1: "snd (writeToStorage_try demo_host (quota_entry, ?full)) = Some (Thrown 22)"
    by (simp add: q) (simp add: demo_defs entry_defs inc)
  have 2: "snd (writeToStorage demo_host (quota_entry, ?full)) = ?full"
    by (simp add: q) (simp add: demo_defs entry_defs inc)
  have 3: \<open>JSON_stringify demo_host (persisted (?q1\<lparr>version := js_increment (version ?q1)\<rparr>))
             = Some ''{"value":0,"version":2,"originId":"tabA"}''\<close>
    by (simp add: q) (simp add: demo_defs entry_defs inc)
  have 4: \<open>setItem (adapters demo_host (storage ?q1)) [] (key (config ?q1))
              ''{"value":0,"version":2,"originId":"tabA"}''
             = ([(''counter'', ''{"value":0,"version":2,"originId":"tabA"}'')], None)\<close>
    by (simp add: q) (simp add: demo_defs)
  have 5: "snd (writeToStorage_try demo_host (opaque_entry, [])) = Some TypeError"
    by (simp add: o) (simp add: demo_defs entry_defs)
  have 6: \<open>JSON_stringify demo_host (persisted (?o1\<lparr>version := js_increment (version ?o1)\<rparr>))
             = Some ''{"value":0,"version":2,"originId":"tabA"}''\<close>
    by (simp add: o) (simp add: demo_defs entry_defs inc)
  have 7: \<open>setItem (adapters demo_host (storage ?o1)) [] (key (config ?o1))
              ''{"value":0,"version":2,"originId":"tabA"}''
             = ([(''counter'', ''{"value":0,"version":2,"originId":"tabA"}'')], None)\<close>
    by (simp add: o) (simp add: demo_defs)
  have v: "version quota_entry = 0" "version opaque_entry = 0" by (simp_all add: q o)
  note a = writeToStorage_failure_caught [OF 1]
  note b = writeToStorage_failure_caught [OF 5]
  have a1: "fst (writeToStorage demo_host (quota_entry, ?full)) = ?q1"
    using a v by (simp add: inc)
  have b1: "fst (writeToStorage demo_host (opaque_entry, [])) = opaque_entry\<lparr>version := 1\<rparr>"
    using b v by (simp add: inc)
  have a2: \<open>writeToStorage_try demo_host (?q1, [])
              = ((?q1\<lparr>version := 2\<rparr>, [(''counter'', ''{"value":0,"version":2,"originId":"tabA"}'')]), None)\<close>
  proof -
    have "version ?q1 = version (fst (writeToStorage demo_host (quota_entry, ?full)))"
      by (simp add: a1)
    with a 3 4 have \<open>writeToStorage_try demo_host (?q1, [])
              = ((?q1\<lparr>version := js_increment (js_increment (version quota_entry))\<rparr>,
                  [(''counter'', ''{"value":0,"version":2,"originId":"tabA"}'')]), None)\<close>
      by blast
    then show ?thesis by (simp add: v inc)
  qed
  have b2: \<open>writeToStorage_try demo_host (?o1, [])
              = ((?o1\<lparr>version := 2\<rparr>, [(''counter'', ''{"value":0,"version":2,"originId":"tabA"}'')]), None)\<close>
  proof -
    have "version ?o1 = version (fst (writeToStorage demo_host (opaque_entry, [])))"
      by (simp add: b1)
    with b 6 7 have \<open>writeToStorage_try demo_host (?o1, [])
              = ((?o1\<lparr>version := js_increment (js_increment (version opaque_entry))\<rparr>,
                  [(''counter'', ''{"value":0,"version":2,"originId":"tabA"}'')]), None)\<close>
      by blast
    then show ?thesis by (simp add: v inc)
  qed
  from 1 2 5 a1 b1 a2 b2 show ?thesis by (simp add: prod_eq_iff)
qed

text \<open>
  Claim C6 as stated fails.  The entry restored from a stored record with version
  \<open>2^53\<close> writes into the full medium: \<open>setItem\<close> throws error 22, and the version after
  the failed write is still \<open>2^53\<close>.  The next write, into an empty medium, succeeds and
  stores version \<open>2^53\<close>: the increment of the failed write does not stand and the later
  write carries no higher version.
\<close>

theorem writeToStorage_increment_lost:
  \<open>version big_entry = 9007199254740992 \<and>
   snd (writeToStorage_try demo_host (big_entry, [(''other'', ''x'')])) = Some (Thrown 22) \<and>
   version (fst (writeToStorage demo_host (big_entry, [(''other'', ''x'')]))) = version big_entry \<and>
   writeToStorage_try demo_host (fst (writeToStorage demo_host (big_entry, [(''other'', ''x'')])), [])
     = ((big_entry, [(''counter'', ''{"value":0,"version":9007199254740992,"originId":"tabA"}'')]), None)\<close>
proof -
  have b: "big_entry =
     \<lparr>config = demo_config, signal = JNum 0, refCount = 0, version = 9007199254740992,
      originId = Some ''tabA'', debouncedWrite = None, disposeEffect = None, storage = 1\<rparr>"
    by (simp add: big_entry_def demo_defs AtomRegistryEntry_new_def version_or_0_def)
  have inc: "js_increment 9007199254740992 = 9007199254740992"
    by (simp add: js_increment_def)
  show ?thesis
    by (simp add: b) (simp add: demo_defs entry_defs inc)
qed

section \<open>The should-invoke condition\<close>

text \<open>
  Where the closure sets \<open>lastInvokeTime\<close>: it starts at 0, \<open>cancel\<close> puts it back to 0,
  and both \<open>invokeFunc\<close> and \<open>leadingEdge\<close> set it to the time they are given.
\<close>

lemma lastInvokeTime_updates:
  "lastInvokeTime (debounce :: ('a, 'r) debounce_state) = 0"
  "lastInvokeTime (cancel d) = 0"
  "lastInvokeTime (fst (snd (invokeFunc func t (d, w)))) = t"
  "lastInvokeTime (fst (snd (leadingEdge func wait options t (d, w)))) = t"
  by (simp_all add: debounce_def cancel_def invokeFunc_def leadingEdge_def startTimer_def Let_def
        split: prod.splits)

lemma shouldInvoke_iff:
  "shouldInvoke wait options d time \<longleftrightarrow>
     lastCallTime d = None
   \<or> (\<exists>t. lastCallTime d = Some t \<and> wait \<le> time - t)
   \<or> (\<exists>t. lastCallTime d = Some t \<and> time - t < 0)
   \<or> (\<exists>m. maxWait options = Some m \<and>
          max (case m of None \<Rightarrow> 0 | Some n \<Rightarrow> n) wait \<le> time - lastInvokeTime d)"
  by (cases "lastCallTime d"; cases "maxWait options")
     (auto simp: shouldInvoke_def maxing_def maxWait_of_def Let_def)

lemma debounced_times:
  "lastCallTime (fst (snd (debounced func wait options time args (d, w)))) = Some time"
  "lastInvokeTime (fst (snd (debounced func wait options time args (d, w)))) =
     (if shouldInvoke wait options d time \<and> (timerId d = None \<or> maxWait options \<noteq> None)
      then time else lastInvokeTime d)"
  "snd (snd (debounced func wait options time args (d, w))) =
     (if shouldInvoke wait options d time \<and>
         (if timerId d = None then leading options = Some True else maxWait options \<noteq> None)
      then snd (func args w) else w)"
  by (auto simp: debounced_def leadingEdge_def invokeFunc_def startTimer_def leading_of_def
        maxing_def Let_def split: prod.splits option.splits)

lemma timerExpired_times:
  "lastCallTime (fst (timerExpired func wait options time (d, w))) = lastCallTime d"
  "lastInvokeTime (fst (timerExpired func wait options time (d, w))) =
     (if shouldInvoke wait options d time \<and> trailing options \<noteq> Some False \<and> lastArgs d \<noteq> None
      then time else lastInvokeTime d)"
  by (auto simp: timerExpired_def trailingEdge_def invokeFunc_def startTimer_def trailing_of_def
        Let_def split: prod.splits option.splits)

lemma flush_times:
  "lastCallTime (fst (snd (flush func options time (d, w)))) = lastCallTime d"
  "lastInvokeTime (fst (snd (flush func options time (d, w)))) =
     (if timerId d \<noteq> None \<and> trailing options \<noteq> Some False \<and> lastArgs d \<noteq> None
      then time else lastInvokeTime d)"
  by (auto simp: flush_def trailingEdge_def invokeFunc_def trailing_of_def
        Let_def split: prod.splits option.splits)

text \<open>
  Claim C8, as the code has it.  For a call of the debounced function at \<open>time\<close>,
  \<open>shouldInvoke\<close> holds exactly when no call is recorded, or the time since the last
  recorded call is at least \<open>wait\<close>, or it is negative, or the options have the key
  maxWait and the time since \<open>lastInvokeTime\<close> is at least the greater of the configured
  maxWait (0 when it is undefined) and \<open>wait\<close>.  The recorded call is the previous call;
  \<open>cancel\<close> forgets it, and a new closure has none.  \<open>lastInvokeTime\<close> is 0 in a new
  closure and after \<open>cancel\<close>.  A call sets it to its time when it should invoke and
  either no timer is pending (the leading edge) or a maxWait is configured, while the
  wrapped function is invoked by that call only when, in the first case, leading is on.
  A timer that fires, or a flush with a pending timer, sets it to its time when it
  invokes the trailing call.
\<close>

theorem shouldInvoke_condition:
  "(shouldInvoke wait options d time \<longleftrightarrow>
      lastCallTime d = None
    \<or> (\<exists>t. lastCallTime d = Some t \<and> wait \<le> time - t)
    \<or> (\<exists>t. lastCallTime d = Some t \<and> time - t < 0)
    \<or> (\<exists>m. maxWait options = Some m \<and>
           max (case m of None \<Rightarrow> 0 | Some n \<Rightarrow> n) wait \<le> time - lastInvokeTime d)) \<and>
   lastCallTime (fst (snd (debounced func wait options time args (d, w)))) = Some time \<and>
   lastInvokeTime (fst (snd (debounced func wait options time args (d, w)))) =
     (if shouldInvoke wait options d time \<and> (timerId d = None \<or> maxWait options \<noteq> None)
      then time else lastInvokeTime d) \<and>
   snd (snd (debounced func wait options time args (d, w))) =
     (if shouldInvoke wait options d time \<and>
         (if timerId d = None then leading options = Some True else maxWait options \<noteq> None)
      then snd (func args w) else w) \<and>
   lastCallTime (fst (timerExpired func wait options time (d, w))) = lastCallTime d \<and>
   lastInvokeTime (fst (timerExpired func wait options time (d, w))) =
     (if shouldInvoke wait options d time \<and> trailing options \<noteq> Some False \<and> lastArgs d \<noteq> None
      then time else lastInvokeTime d) \<and>
   lastCallTime (fst (snd (flush func options time (d, w)))) = lastCallTime d \<and>
   lastInvokeTime (fst (snd (flush func options time (d, w)))) =
     (if timerId d \<noteq> None \<and> trailing options \<noteq> Some False \<and> lastArgs d \<noteq> None
      then time else lastInvokeTime d) \<and>
   lastCallTime (cancel d) = None \<and> lastInvokeTime (cancel d) = 0 \<and>
   lastCallTime (debounce :: ('a, 'r) debounce_state) = None \<and>
   lastInvokeTime (debounce :: ('a, 'r) debounce_state) = 0"
proof -
  have ends: "lastCallTime (cancel d) = None" "lastInvokeTime (cancel d) = 0"
    "lastCallTime (debounce :: ('a, 'r) debounce_state) = None"
    "lastInvokeTime (debounce :: ('a, 'r) debounce_state) = 0"
    by (simp_all add: cancel_def debounce_def)
  show ?thesis
    unfolding debounced_times timerExpired_times flush_times ends
    using shouldInvoke_iff [of wait options d time] by simp
qed

text \<open>
  With wait 100 and the configured maxWait 50, 20 after the last call: the condition
  fails 60 after \<open>lastInvokeTime\<close> and holds 100 after it.  And the runs of the examples:
  the call at 0 of \<open>clamp_run\<close> invokes the function and records times 0 and 0; the call
  at 1000 of \<open>idle_run\<close> invokes nothing and sets \<open>lastInvokeTime\<close> to 1000.
\<close>

theorem shouldInvoke_condition_witness:
  "\<not> shouldInvoke 100 leading_maxWait50
       (\<lparr>lastArgs = None, result = None, timerId = Some 100,
         lastCallTime = Some 40, lastInvokeTime = 0\<rparr> :: (jsval, jsval) debounce_state) 60 \<and>
   shouldInvoke 100 leading_maxWait50
       (\<lparr>lastArgs = None, result = None, timerId = Some 100,
         lastCallTime = Some 80, lastInvokeTime = 0\<rparr> :: (jsval, jsval) debounce_state) 100 \<and>
   lastCallTime (fst clamp_run) = Some 0 \<and> lastInvokeTime (fst clamp_run) = 0 \<and>
   snd clamp_run = 1 \<and>
   lastCallTime (fst idle_run) = Some 1000 \<and> lastInvokeTime (fst idle_run) = 1000 \<and>
   snd idle_run = snd idle_fired"
proof -
  let ?d1 = "\<lparr>lastArgs = None, result = None :: jsval option, timerId = Some 100,
              lastCallTime = Some 40, lastInvokeTime = 0\<rparr> :: (jsval, jsval) debounce_state"
  let ?d2 = "\<lparr>lastArgs = None, result = None :: jsval option, timerId = Some 100,
              lastCallTime = Some 80, lastInvokeTime = 0\<rparr> :: (jsval, jsval) debounce_state"
  have fired: "idle_fired =
      (\<lparr>lastArgs = None, result = None, timerId = None, lastCallTime = Some 0,
        lastInvokeTime = 100\<rparr>, 1)"
    by (simp add: idle_fired_def idle_called_def maxWait150_def count_func_def debounce_defs Let_def)
  have si: "shouldInvoke 100 maxWait150 (fst idle_fired) 1000"
    by (simp add: fired shouldInvoke_def Let_def)
  have tn: "timerId (fst idle_fired) = None" by (simp add: fired)
  have ld: "leading maxWait150 \<noteq> Some True" by (simp add: maxWait150_def)
  note a = shouldInvoke_condition [of 100 leading_maxWait50 ?d1 60 count_func "[]" 0]
  note b = shouldInvoke_condition [of 100 leading_maxWait50 ?d2 100 count_func "[]" 0]
  note c = shouldInvoke_condition
             [of 100 leading_maxWait50 "debounce :: (jsval, jsval) debounce_state" 0 count_func "[]" 0]
  note d = shouldInvoke_condition
             [of 100 maxWait150 "fst idle_fired" 1000 count_func "[]" "snd idle_fired"]
  have 1: "\<not> shouldInvoke 100 leading_maxWait50 ?d1 60"
    using a [THEN conjunct1] by (simp add: leading_maxWait50_def)
  have 2: "shouldInvoke 100 leading_maxWait50 ?d2 100"
    using b [THEN conjunct1] by (simp add: leading_maxWait50_def)
  have first: "shouldInvoke 100 leading_maxWait50 (debounce :: (jsval, jsval) debounce_state) 0"
    using c [THEN conjunct1] by (simp add: debounce_def)
  have 3: "lastCallTime (fst clamp_run) = Some 0 \<and> lastInvokeTime (fst clamp_run) = 0 \<and>
           snd clamp_run = 1"
    using c [THEN conjunct2, THEN conjunct1]
      c [THEN conjunct2, THEN conjunct2, THEN conjunct1]
      c [THEN conjunct2, THEN conjunct2, THEN conjunct2, THEN conjunct1] first
    by (simp add: clamp_run_def) (simp add: leading_maxWait50_def debounce_def count_func_def)
  have 4: "lastCallTime (fst idle_run) = Some 1000 \<and> lastInvokeTime (fst idle_run) = 1000 \<and>
           snd idle_run = snd idle_fired"
    using d [THEN conjunct2, THEN conjunct1]
      d [THEN conjunct2, THEN conjunct2, THEN conjunct1]
      d [THEN conjunct2, THEN conjunct2, THEN conjunct2, THEN conjunct1] si tn ld
    by (simp add: idle_run_def)
  from 1 2 3 4 show ?thesis by simp
qed

text \<open>
  Claim C8 as stated fails, twice.  In \<open>clamp_run\<close> a maxWait of 50 is configured and the
  function has been invoked once, at 0, by the only call; at 60 the time since that
  invocation is 60, at least the configured maxWait, and the time since the last call is
  60, below the wait of 100: the condition does not hold.  In \<open>idle_run\<close> a maxWait of 150
  is configured; the function has been invoked once, when the timer fired at 100, and
  not by the call at 1000; at 1090 the time since the last invocation is 990 and the time
  since the last call is 90: the condition does not hold.
\<close>

theorem shouldInvoke_not_since_last_invocation:
  "maxWait leading_maxWait50 = Some (Some 50) \<and>
   snd clamp_run = 1 \<and>
   lastCallTime (fst clamp_run) = Some 0 \<and>
   (50 :: int) \<le> 60 - 0 \<and>
   \<not> shouldInvoke 100 leading_maxWait50 (fst clamp_run) 60 \<and>
   maxWait maxWait150 = Some (Some 150) \<and>
   snd idle_called = 0 \<and> snd idle_fired = 1 \<and> snd idle_run = 1 \<and>
   lastCallTime (fst idle_run) = Some 1000 \<and>
   (150 :: int) \<le> 1090 - 100 \<and>
   \<not> shouldInvoke 100 maxWait150 (fst idle_run) 1090"
  by (simp add: clamp_run_def idle_run_def idle_fired_def idle_called_def leading_maxWait50_def
        maxWait150_def count_func_def debounce_defs Let_def)

section \<open>The merge\<close>

lemma signal_set_result:
  "\<exists>dw. signal_set h time v (e, s) = (e\<lparr>signal := v, debouncedWrite := dw\<rparr>, s)
     \<and> (debouncedWrite e = None \<longleftrightarrow> dw = None)
     \<and> (strict_equal h (signal e) v \<or> disposeEffect e = None \<longrightarrow> dw = debouncedWrite e)"
proof (cases "\<not> strict_equal h (signal e) v \<and> disposeEffect e \<noteq> None")
  case True
  obtain dw where
    "persistence_effect h time (e\<lparr>signal := v\<rparr>, s) = (e\<lparr>signal := v, debouncedWrite := dw\<rparr>, s)"
    and "debouncedWrite e = None \<longleftrightarrow> dw = None"
    using persistence_effect_frame [of h time "e\<lparr>signal := v\<rparr>" s] by auto
  with True show ?thesis by (auto simp: signal_set_def)
next
  case False
  then have "signal_set h time v (e, s) = (e\<lparr>signal := v, debouncedWrite := debouncedWrite e\<rparr>, s)"
    by (auto simp: signal_set_def)
  then show ?thesis by blast
qed

lemma syncWith_result:
  "\<exists>dw. syncWith h time r (e, s) =
          (if shouldUpdate h e r
           then (e\<lparr>signal := st_value r, debouncedWrite := dw, version := st_version r\<rparr>, s)
           else (e, s))"
proof -
  obtain dw where
    "signal_set h time (st_value r) (e, s) = (e\<lparr>signal := st_value r, debouncedWrite := dw\<rparr>, s)"
    using signal_set_result [of h time "st_value r" e s] by blast
  then show ?thesis by (auto simp: syncWith_def)
qed

lemma shouldUpdate_iff:
  "shouldUpdate h e r \<longleftrightarrow>
     st_version r > version e \<or>
     (st_version r = version e \<and>
      (\<exists>i. originId e = Some i \<and> i \<noteq> [] \<and> localeCompare h (st_originId r) i > 0))"
  by (auto simp: shouldUpdate_def Let_def split: option.splits)

lemma demo_mounted_eq:
  \<open>demo_mounted =
    (\<lparr>config = demo_config, signal = JNum 0, refCount = 1, version = 1, originId = Some ''tabA'',
      debouncedWrite = Some \<lparr>lastArgs = None, result = None, timerId = None,
                             lastCallTime = Some 0, lastInvokeTime = 100\<rparr>,
      disposeEffect = Some (), storage = 0\<rparr>,
     [(''counter'', ''{"value":0,"version":1,"originId":"tabA"}'')])\<close>
  by (simp add: demo_defs entry_defs debounce_defs Let_def)

lemma demo_synced:
  "syncWith demo_host 500 demo_remote demo_mounted =
   (\<lparr>config = demo_config, signal = JNum 7, refCount = 1, version = 5, originId = Some ''tabA'',
     debouncedWrite = Some \<lparr>lastArgs = Some [], result = None, timerId = Some 100,
                            lastCallTime = Some 500, lastInvokeTime = 500\<rparr>,
     disposeEffect = Some (), storage = 0\<rparr>, snd demo_mounted)"
  by (simp add: demo_mounted_eq) (simp add: demo_defs entry_defs debounce_defs Let_def)

text \<open>
  Claim C2, as the code has it.  \<open>syncWith\<close> accepts a remote state with a greater
  version; at equal versions it accepts exactly when the entry has an origin id, that id
  is not the empty string, and \<open>localeCompare\<close> of the remote id with the local id is
  positive; it ignores a remote state with a smaller version.  Acceptance makes the
  remote value and version the local ones, and an ignored remote state changes nothing.
\<close>

theorem syncWith_last_writer_wins:
  "(version e < st_version r \<longrightarrow> shouldUpdate h e r) \<and>
   (st_version r = version e \<longrightarrow>
      (shouldUpdate h e r \<longleftrightarrow>
         (\<exists>i. originId e = Some i \<and> i \<noteq> [] \<and> 0 < localeCompare h (st_originId r) i))) \<and>
   (st_version r < version e \<longrightarrow> \<not> shouldUpdate h e r) \<and>
   (shouldUpdate h e r \<longrightarrow>
      signal (fst (syncWith h time r (e, s))) = st_value r \<and>
      version (fst (syncWith h time r (e, s))) = st_version r) \<and>
   (\<not> shouldUpdate h e r \<longrightarrow> syncWith h time r (e, s) = (e, s))"
proof -
  obtain dw where "syncWith h time r (e, s) =
          (if shouldUpdate h e r
           then (e\<lparr>signal := st_value r, debouncedWrite := dw, version := st_version r\<rparr>, s)
           else (e, s))"
    using syncWith_result [of h time r e s] by blast
  then have "shouldUpdate h e r \<longrightarrow>
      signal (fst (syncWith h time r (e, s))) = st_value r \<and>
      version (fst (syncWith h time r (e, s))) = st_version r"
    and "\<not> shouldUpdate h e r \<longrightarrow> syncWith h time r (e, s) = (e, s)"
    by simp_all
  moreover have "version e < st_version r \<longrightarrow> shouldUpdate h e r"
    and "st_version r < version e \<longrightarrow> \<not> shouldUpdate h e r"
    and "st_version r = version e \<longrightarrow>
      (shouldUpdate h e r \<longleftrightarrow>
         (\<exists>i. originId e = Some i \<and> i \<noteq> [] \<and> 0 < localeCompare h (st_originId r) i))"
    by (auto simp: shouldUpdate_iff)
  ultimately show ?thesis by blast
qed

text \<open>
  On the example host the mounted entry (version 1) accepts the remote version 5, and
  the entry whose origin id is the empty string ignores a remote state of its own
  version.
\<close>

theorem syncWith_last_writer_wins_witness:
  "shouldUpdate demo_host (fst demo_mounted) demo_remote \<and>
   signal (fst (syncWith demo_host 500 demo_remote demo_mounted)) = JNum 7 \<and>
   version (fst (syncWith demo_host 500 demo_remote demo_mounted)) = 5 \<and>
   \<not> shouldUpdate demo_host empty_id_entry tie_remote \<and>
   syncWith demo_host 500 tie_remote (empty_id_entry, []) = (empty_id_entry, [])"
  using syncWith_last_writer_wins [of "fst demo_mounted" demo_remote demo_host 500 "snd demo_mounted"]
    syncWith_last_writer_wins [of empty_id_entry tie_remote demo_host 500 "[]"]
  by (simp add: demo_mounted_eq demo_remote_def tie_remote_def empty_id_entry_def
        AtomRegistryEntry_new_def)

text \<open>
  Claim C2 as stated fails: at equal versions the remote id "tabB" sorts strictly after
  the local id, the empty string, under the lexicographic ordering (which is the
  comparator of the example host), and yet the remote state is not accepted.
\<close>

theorem syncWith_tie_empty_originId:
  \<open>version empty_id_entry = st_version tie_remote \<and>
   originId empty_id_entry = Some [] \<and>
   0 < lex_compare (st_originId tie_remote) [] \<and>
   0 < localeCompare demo_host (st_originId tie_remote) [] \<and>
   signal empty_id_entry \<noteq> st_value tie_remote \<and>
   syncWith demo_host 0 tie_remote (empty_id_entry, []) = (empty_id_entry, [])\<close>
  by (simp add: empty_id_entry_def tie_remote_def demo_defs entry_defs)

text \<open>
  Claim C4.  Applying \<open>syncWith\<close> twice with the same remote state leaves the value and
  the version that the first application left.
\<close>

theorem syncWith_idempotent:
  "signal (fst (syncWith h t2 r (syncWith h t1 r (e, s)))) = signal (fst (syncWith h t1 r (e, s))) \<and>
   version (fst (syncWith h t2 r (syncWith h t1 r (e, s)))) = version (fst (syncWith h t1 r (e, s)))"
proof -
  obtain dw where 1: "syncWith h t1 r (e, s) =
          (if shouldUpdate h e r
           then (e\<lparr>signal := st_value r, debouncedWrite := dw, version := st_version r\<rparr>, s)
           else (e, s))"
    using syncWith_result [of h t1 r e s] by blast
  show ?thesis
  proof (cases "shouldUpdate h e r")
    case True
    let ?e1 = "e\<lparr>signal := st_value r, debouncedWrite := dw, version := st_version r\<rparr>"
    obtain dw2 where 2: "syncWith h t2 r (?e1, s) =
          (if shouldUpdate h ?e1 r
           then (?e1\<lparr>signal := st_value r, debouncedWrite := dw2, version := st_version r\<rparr>, s)
           else (?e1, s))"
      using syncWith_result [of h t2 r ?e1 s] by blast
    from True 1 2 show ?thesis by auto
  next
    case False
    then have "syncWith h t1 r (e, s) = (e, s)" "syncWith h t2 r (e, s) = (e, s)"
      by (simp_all add: syncWith_def)
    then show ?thesis by simp
  qed
qed

text \<open>The remote state of the examples, delivered to the mounted entry at 500 and again at 700.\<close>

theorem syncWith_idempotent_witness:
  "signal (fst (syncWith demo_host 700 demo_remote (syncWith demo_host 500 demo_remote demo_mounted))) = JNum 7 \<and>
   version (fst (syncWith demo_host 700 demo_remote (syncWith demo_host 500 demo_remote demo_mounted))) = 5"
  using syncWith_idempotent [of demo_host 700 demo_remote 500 "fst demo_mounted" "snd demo_mounted"]
  by (simp add: demo_synced)

text \<open>
  Claim C9.  An entry constructed without the originId option has no origin id, and an
  entry without origin id never accepts a remote state whose version equals its own,
  whatever the remote origin id: \<open>syncWith\<close> leaves the entry and the storage as they are.
\<close>

theorem syncWith_tie_without_originId:
  "(init_originId options = None \<longrightarrow> originId (AtomRegistryEntry_new h cfg st options s0) = None) \<and>
   (originId e = None \<and> st_version r = version e \<longrightarrow>
      \<not> shouldUpdate h e r \<and> syncWith h time r (e, s) = (e, s))"
  by (auto simp: AtomRegistryEntry_new_def Let_def shouldUpdate_def syncWith_def
           split: sum.splits option.splits)

text \<open>An entry created without origin id, and a remote state of "tabB" with its version.\<close>

theorem syncWith_tie_without_originId_witness:
  "originId no_id_entry = None \<and> st_version tie_remote = version no_id_entry \<and>
   syncWith demo_host 500 tie_remote (no_id_entry, []) = (no_id_entry, [])"
proof -
  have 1: "init_originId \<lparr>overrideValue = JUndefined, init_originId = None, persistent = None\<rparr> = None"
    by simp
  have 2: "st_version tie_remote = version no_id_entry"
    by (simp add: tie_remote_def no_id_entry_def AtomRegistryEntry_new_def)
  from syncWith_tie_without_originId
     [of "\<lparr>overrideValue = JUndefined, init_originId = None, persistent = None\<rparr>" demo_host demo_config 0 "[]"
         no_id_entry tie_remote 500 "[]"] 1 2
  show ?thesis by (simp add: no_id_entry_def [symmetric])
qed

section \<open>The merge and the write path\<close>

lemma timer_fires_pending:
  assumes "debouncedWrite e = Some d" "lastArgs d \<noteq> None" "lastCallTime d = Some c" "write_wait \<le> t - c"
  shows "timer_fires h t (e, s) =
           ((fst (writeToStorage h (e, s)))
              \<lparr>debouncedWrite :=
                 Some (d\<lparr>timerId := None, lastArgs := None, lastInvokeTime := t, result := None\<rparr>)\<rparr>,
            snd (writeToStorage h (e, s)))"
  using assms
  by (simp add: timer_fires_def timerExpired_def shouldInvoke_def trailingEdge_def invokeFunc_def
        write_func_def split: prod.splits)

text \<open>
  Claim C1, as the code has it.  An accepted remote state is assigned to the reactive
  cell and its version becomes the local one; \<open>syncWith\<close> itself writes nothing to the
  storage.  Whether a write follows depends on the persistence effect, not on the
  reference count: when the entry has no subscribed effect or no debounced writer (never
  mounted, unmounted to zero, or disposed while mounted), or when the assignment does
  not change the value, the debounced writer is left as it was.  When the effect and the
  writer are present and the assignment changes the value, the effect calls the
  debounced writer: a write is pending after \<open>syncWith\<close>, and when its timer fires, 100
  or more after the call, the write path runs on the accepted state, stores it, and
  leaves the remote version incremented, which is the remote version plus one for a
  remote version from \<open>- 2^53\<close> up to \<open>2^53 - 1\<close>.
\<close>

theorem syncWith_accept_schedules_write:
  assumes "shouldUpdate h e r"
  shows "snd (syncWith h time r (e, s)) = s \<and>
         signal (fst (syncWith h time r (e, s))) = st_value r \<and>
         version (fst (syncWith h time r (e, s))) = st_version r \<and>
         (disposeEffect e = None \<or> debouncedWrite e = None \<or> strict_equal h (signal e) (st_value r) \<longrightarrow>
            debouncedWrite (fst (syncWith h time r (e, s))) = debouncedWrite e) \<and>
         (disposeEffect e \<noteq> None \<and> debouncedWrite e \<noteq> None \<and>
          \<not> strict_equal h (signal e) (st_value r) \<longrightarrow>
            write_pending (fst (syncWith h time r (e, s))) \<and>
            (\<forall>t. write_wait \<le> t - time \<longrightarrow>
               version (fst (timer_fires h t (syncWith h time r (e, s)))) = js_increment (st_version r) \<and>
               snd (timer_fires h t (syncWith h time r (e, s))) =
                 snd (writeToStorage h (e\<lparr>signal := st_value r, version := st_version r\<rparr>, s))) \<and>
            js_increment (st_version r) =
              (if - (2 ^ 53) \<le> st_version r \<and> st_version r < 2 ^ 53 then st_version r + 1
               else if \<bar>st_version r\<bar> < 2 ^ 54
                    then (if even (st_version r div 2) then st_version r else st_version r + 2)
                    else st_version r))"
proof (cases "disposeEffect e \<noteq> None \<and> debouncedWrite e \<noteq> None \<and>
              \<not> strict_equal h (signal e) (st_value r)")
  case False
  have "syncWith h time r (e, s) = (e\<lparr>signal := st_value r, version := st_version r\<rparr>, s)"
  proof (cases "debouncedWrite e = None \<and> disposeEffect e \<noteq> None \<and>
                \<not> strict_equal h (signal e) (st_value r)")
    case True
    with assms show ?thesis
      by (simp add: syncWith_def signal_set_def persistence_effect_def)
  next
    case quiet: False
    with False assms show ?thesis
      by (auto simp: syncWith_def signal_set_def)
  qed
  with False show ?thesis by auto
next
  case True
  then obtain d where d: "debouncedWrite e = Some d" by auto
  define d' where
    "d' = fst (snd (debounced (write_func h) write_wait write_options time []
                      (d, (e\<lparr>signal := st_value r\<rparr>, s))))"
  have d': "lastArgs d' = Some []" "lastCallTime d' = Some time" "timerId d' \<noteq> None"
    by (simp_all add: d'_def debounced_write)
  let ?e1 = "e\<lparr>signal := st_value r, version := st_version r\<rparr>"
  let ?e2 = "?e1\<lparr>debouncedWrite := Some d'\<rparr>"
  from True d assms have sw: "syncWith h time r (e, s) = (?e2, s)"
    by (simp add: syncWith_def signal_set_def persistence_effect_def d'_def debounced_write)
  have pend: "write_pending ?e2"
    using d' by (simp add: write_pending_def)
  have fire: "version (fst (timer_fires h t (?e2, s))) = js_increment (st_version r) \<and>
              snd (timer_fires h t (?e2, s)) = snd (writeToStorage h (?e1, s))"
    if "write_wait \<le> t - time" for t
  proof -
    obtain s' where w: "writeToStorage h (?e1, s) = (?e1\<lparr>version := js_increment (version ?e1)\<rparr>, s')"
      using writeToStorage_result [of h ?e1 s] by blast
    have "timer_fires h t (?e2, s) =
           ((fst (writeToStorage h (?e2, s)))
              \<lparr>debouncedWrite :=
                 Some (d'\<lparr>timerId := None, lastArgs := None, lastInvokeTime := t, result := None\<rparr>)\<rparr>,
            snd (writeToStorage h (?e2, s)))"
      using timer_fires_pending [of ?e2 d' time t h s] d' that by simp
    then show ?thesis
      using w by (simp add: writeToStorage_debouncedWrite)
  qed
  have "js_increment (st_version r) =
          (if - (2 ^ 53) \<le> st_version r \<and> st_version r < 2 ^ 53 then st_version r + 1
           else if \<bar>st_version r\<bar> < 2 ^ 54
                then (if even (st_version r div 2) then st_version r else st_version r + 2)
                else st_version r)"
    by (simp only: js_increment_def)
  with sw pend fire True show ?thesis by simp
qed

text \<open>
  On the example host: the mounted entry accepts the remote state at 500; afterwards a
  write is pending, the storage is as before, and the timer that fires at 600 takes the
  version from 5 to 6.  The same entry, disposed at 400 while its reference count is
  1, accepts the remote state as well, and has no debounced writer afterwards.
\<close>

theorem syncWith_accept_schedules_write_witness:
  "write_pending (fst (syncWith demo_host 500 demo_remote demo_mounted)) \<and>
   snd (syncWith demo_host 500 demo_remote demo_mounted) = snd demo_mounted \<and>
   version (fst (timer_fires demo_host 600 (syncWith demo_host 500 demo_remote demo_mounted))) = 6 \<and>
   refCount (fst (dispose demo_host 400 demo_mounted)) = 1 \<and>
   signal (fst (syncWith demo_host 500 demo_remote (dispose demo_host 400 demo_mounted))) = JNum 7 \<and>
   debouncedWrite (fst (syncWith demo_host 500 demo_remote (dispose demo_host 400 demo_mounted))) = None"
proof -
  have 1: "disposeEffect (fst demo_mounted) \<noteq> None" by (simp add: demo_mounted_eq)
  have 2: "debouncedWrite (fst demo_mounted) \<noteq> None"
    by (simp add: demo_mounted_eq)
  have 3: "shouldUpdate demo_host (fst demo_mounted) demo_remote"
    by (simp add: demo_mounted_eq shouldUpdate_def demo_remote_def)
  have 4: "\<not> strict_equal demo_host (signal (fst demo_mounted)) (st_value demo_remote)"
    by (simp add: demo_mounted_eq demo_host_def demo_remote_def)
  have disposed: "dispose demo_host 400 demo_mounted =
      ((fst demo_mounted)\<lparr>debouncedWrite := None, disposeEffect := None\<rparr>, snd demo_mounted)"
    by (simp add: demo_mounted_eq)
       (simp add: dispose_def cleanupPersistence_def AtomRegistryEntry_flush_def flush_def)
  let ?gone = "(fst demo_mounted)\<lparr>debouncedWrite := None, disposeEffect := None\<rparr>"
  have 5: "shouldUpdate demo_host ?gone demo_remote"
    by (simp add: demo_mounted_eq shouldUpdate_def demo_remote_def)
  have a: "write_pending (fst (syncWith demo_host 500 demo_remote demo_mounted)) \<and>
           snd (syncWith demo_host 500 demo_remote demo_mounted) = snd demo_mounted \<and>
           version (fst (timer_fires demo_host 600 (syncWith demo_host 500 demo_remote demo_mounted))) = 6"
    using syncWith_accept_schedules_write [OF 3, of 500 "snd demo_mounted"] 1 2 4
    by (simp add: demo_remote_def write_wait_def)
  have b: "signal (fst (syncWith demo_host 500 demo_remote (?gone, snd demo_mounted))) = JNum 7 \<and>
           debouncedWrite (fst (syncWith demo_host 500 demo_remote (?gone, snd demo_mounted))) = None"
    using syncWith_accept_schedules_write [OF 5, of 500 "snd demo_mounted"]
    by (simp add: demo_remote_def)
  from a b show ?thesis by (simp add: disposed) (simp add: demo_mounted_eq)
qed

text \<open>
  Claim C1 as stated fails.  The mounted entry of the examples has its effect subscribed
  and no write pending.  It accepts the remote state of "tabB" (value 7, version 5) at
  500.  That acceptance leaves a debounced write pending, and when the timer fires at 600
  the storage holds the accepted value again, under version 6 and the local origin id.
\<close>

theorem syncWith_accept_rewrites_storage:
  \<open>disposeEffect (fst demo_mounted) \<noteq> None \<and>
   \<not> write_pending (fst demo_mounted) \<and>
   shouldUpdate demo_host (fst demo_mounted) demo_remote \<and>
   write_pending (fst (syncWith demo_host 500 demo_remote demo_mounted)) \<and>
   map_of (snd (timer_fires demo_host 600 (syncWith demo_host 500 demo_remote demo_mounted))) ''counter''
     = Some ''{"value":7,"version":6,"originId":"tabA"}''\<close>
  by (simp add: demo_synced)
     (simp add: demo_mounted_eq demo_defs entry_defs debounce_defs js_increment_def Let_def)

section \<open>Mounting and unmounting\<close>

lemma setupPersistence_result:
  "setupPersistence h time (e, s) =
     (e\<lparr>debouncedWrite :=
          Some (debounce\<lparr>lastArgs := Some [], lastCallTime := Some time, lastInvokeTime := time,
                          timerId := Some write_wait\<rparr>),
        disposeEffect := Some ()\<rparr>, s)"
  by (simp add: setupPersistence_def persistence_effect_def debounced_write)
     (simp add: debounce_def shouldInvoke_def)

lemma cleanupPersistence_result:
  "cleanupPersistence h time (e, s) =
     (case (if write_pending e then writeToStorage h (e, s) else (e, s)) of
        (e', s') \<Rightarrow> (e'\<lparr>debouncedWrite := None, disposeEffect := None\<rparr>, s'))"
proof (cases "debouncedWrite e")
  case None
  then show ?thesis
    by (simp add: cleanupPersistence_def AtomRegistryEntry_flush_def write_pending_def)
next
  case (Some d)
  obtain s' where w: "writeToStorage h (e, s) = (e\<lparr>version := js_increment (version e)\<rparr>, s')"
    using writeToStorage_result [of h e s] by blast
  from Some w show ?thesis
    by (simp add: cleanupPersistence_def AtomRegistryEntry_flush_def write_pending_def flush_write)
qed

lemma mount_inv:
  assumes "lifecycle_inv e"
  shows "lifecycle_inv (fst (mount h t (e, s))) \<and> refCount (fst (mount h t (e, s))) = refCount e + 1"
proof (cases "refCount e = 0")
  case True
  then show ?thesis
    by (simp add: mount_def setupPersistence_result lifecycle_inv_def persistence_active_def)
next
  case False
  with assms show ?thesis
    by (auto simp: mount_def lifecycle_inv_def persistence_active_def Let_def)
qed

lemma unmount_inv:
  assumes "lifecycle_inv e"
  shows "lifecycle_inv (fst (unmount h t (e, s))) \<and> refCount (fst (unmount h t (e, s))) = refCount e - 1"
proof (cases "refCount e = 1")
  case True
  obtain s' where
    "writeToStorage h (e\<lparr>refCount := 0\<rparr>, s) =
       (e\<lparr>refCount := 0, version := js_increment (version e)\<rparr>, s')"
    using writeToStorage_result [of h "e\<lparr>refCount := 0\<rparr>" s] by auto
  with True show ?thesis
    by (simp add: unmount_def cleanupPersistence_result lifecycle_inv_def write_pending_def Let_def)
next
  case False
  with assms show ?thesis
    by (auto simp: unmount_def lifecycle_inv_def persistence_active_def Let_def)
qed

lemma lifecycle_inv_run:
  "lifecycle_inv e \<Longrightarrow>
     lifecycle_inv (fst (lifecycle h calls (e, s))) \<and>
     refCount (fst (lifecycle h calls (e, s))) = refCount e + net_count calls"
proof (induction calls arbitrary: e s)
  case Nil
  then show ?case by simp
next
  case (Cons c calls)
  show ?case
  proof (cases c)
    case (Mount t)
    obtain e1 s1 where m: "mount h t (e, s) = (e1, s1)" by (cases "mount h t (e, s)")
    with mount_inv [OF Cons.prems, of h t s] have "lifecycle_inv e1" "refCount e1 = refCount e + 1"
      by simp_all
    with Cons.IH [of e1 s1] Mount m show ?thesis by simp
  next
    case (Unmount t)
    obtain e1 s1 where m: "unmount h t (e, s) = (e1, s1)" by (cases "unmount h t (e, s)")
    with unmount_inv [OF Cons.prems, of h t s] have "lifecycle_inv e1" "refCount e1 = refCount e - 1"
      by simp_all
    with Cons.IH [of e1 s1] Unmount m show ?thesis by simp
  qed
qed

lemma new_entry_inv:
  "lifecycle_inv (AtomRegistryEntry_new h cfg st options s0) \<and>
   refCount (AtomRegistryEntry_new h cfg st options s0) = 0"
  by (auto simp: AtomRegistryEntry_new_def lifecycle_inv_def Let_def split: sum.splits option.splits)

text \<open>
  Claim C3.  After any finite sequence of mount and unmount calls on a new entry, the
  reference count is the number of mounts minus the number of unmounts, the persistence
  effect and the debounced writer are both present if and only if that number is
  positive, and otherwise both are absent.  An unmount that takes the count from 1 to 0
  runs the write path when a debounced write is pending, and then leaves the entry
  without writer and without effect.
\<close>

theorem mount_unmount_persistence:
  "refCount (fst (lifecycle h calls (AtomRegistryEntry_new h cfg st options s0, s0))) = net_count calls \<and>
   (persistence_active (fst (lifecycle h calls (AtomRegistryEntry_new h cfg st options s0, s0)))
      \<longleftrightarrow> 0 < net_count calls) \<and>
   (\<not> persistence_active (fst (lifecycle h calls (AtomRegistryEntry_new h cfg st options s0, s0))) \<longrightarrow>
      debouncedWrite (fst (lifecycle h calls (AtomRegistryEntry_new h cfg st options s0, s0))) = None \<and>
      disposeEffect (fst (lifecycle h calls (AtomRegistryEntry_new h cfg st options s0, s0))) = None) \<and>
   (refCount e = 1 \<longrightarrow>
      unmount h t (e, s) =
        (case (if write_pending e then writeToStorage h (e\<lparr>refCount := 0\<rparr>, s)
               else (e\<lparr>refCount := 0\<rparr>, s)) of
           (e', s') \<Rightarrow> (e'\<lparr>debouncedWrite := None, disposeEffect := None\<rparr>, s')))"
proof -
  let ?new = "AtomRegistryEntry_new h cfg st options s0"
  let ?fin = "fst (lifecycle h calls (?new, s0))"
  have inv: "lifecycle_inv ?fin" and rc: "refCount ?fin = net_count calls"
    using lifecycle_inv_run [of ?new h calls s0] new_entry_inv [of h cfg st options s0] by simp_all
  have a: "persistence_active ?fin \<longleftrightarrow> 0 < net_count calls"
    using inv rc by (auto simp: lifecycle_inv_def persistence_active_def split: if_splits)
  have b: "\<not> persistence_active ?fin \<longrightarrow> debouncedWrite ?fin = None \<and> disposeEffect ?fin = None"
    using inv by (auto simp: lifecycle_inv_def split: if_splits)
  have c: "refCount e = 1 \<longrightarrow>
      unmount h t (e, s) =
        (case (if write_pending e then writeToStorage h (e\<lparr>refCount := 0\<rparr>, s)
               else (e\<lparr>refCount := 0\<rparr>, s)) of
           (e', s') \<Rightarrow> (e'\<lparr>debouncedWrite := None, disposeEffect := None\<rparr>, s'))"
    by (simp add: unmount_def cleanupPersistence_result write_pending_def Let_def)
  from rc a b c show ?thesis by blast
qed

text \<open>
  The new entry of the examples, mounted twice and unmounted once: the count is 1,
  persistence is active and the write of the first mount is pending.  The second unmount
  brings the count to 0: persistence is inactive and the pending write is in the storage.
\<close>

theorem mount_unmount_persistence_witness:
  \<open>refCount (fst (lifecycle demo_host [Mount 0, Mount 10, Unmount 20] (demo_entry, []))) = 1 \<and>
   persistence_active (fst (lifecycle demo_host [Mount 0, Mount 10, Unmount 20] (demo_entry, []))) \<and>
   write_pending (fst (lifecycle demo_host [Mount 0, Mount 10, Unmount 20] (demo_entry, []))) \<and>
   \<not> persistence_active
       (fst (lifecycle demo_host [Mount 0, Mount 10, Unmount 20, Unmount 30] (demo_entry, []))) \<and>
   snd (lifecycle demo_host [Mount 0, Mount 10, Unmount 20, Unmount 30] (demo_entry, []))
     = [(''counter'', ''{"value":0,"version":1,"originId":"tabA"}'')]\<close>
proof -
  let ?run = "lifecycle demo_host [Mount 0, Mount 10, Unmount 20] (demo_entry, [])"
  have run: "?run =
    (\<lparr>config = demo_config, signal = JNum 0, refCount = 1, version = 0, originId = Some ''tabA'',
      debouncedWrite = Some \<lparr>lastArgs = Some [], result = None, timerId = Some 100,
                             lastCallTime = Some 0, lastInvokeTime = 0\<rparr>,
      disposeEffect = Some (), storage = 0\<rparr>, [])"
    by (simp add: demo_defs entry_defs debounce_defs Let_def)
  have n: "net_count [Mount 0, Mount 10, Unmount 20] = 1"
    "net_count [Mount 0, Mount 10, Unmount 20, Unmount 30] = 0" by simp_all
  have split: "lifecycle demo_host [Mount 0, Mount 10, Unmount 20, Unmount 30] (demo_entry, [])
                 = unmount demo_host 30 (fst ?run, snd ?run)" by simp
  have w: \<open>writeToStorage demo_host (fst ?run\<lparr>refCount := 0\<rparr>, snd ?run)
             = (fst ?run\<lparr>refCount := 0, version := 1\<rparr>,
                [(''counter'', ''{"value":0,"version":1,"originId":"tabA"}'')])\<close>
    by (simp only: run) (simp add: demo_defs entry_defs)
  have p: "write_pending (fst ?run)" by (simp only: run) (simp add: write_pending_def)
  have r1: "refCount (fst ?run) = 1" by (simp only: run) simp
  note a = mount_unmount_persistence
             [of demo_host "[Mount 0, Mount 10, Unmount 20]" demo_config 0 demo_options "[]"
                 "fst ?run" 30 "snd ?run"]
  note b = mount_unmount_persistence
             [of demo_host "[Mount 0, Mount 10, Unmount 20, Unmount 30]" demo_config 0 demo_options "[]"
                 "fst ?run" 30 "snd ?run"]
  from a b n r1 p w split show ?thesis
    by (simp add: demo_entry_def [symmetric])
qed

section \<open>Invariants of an entry\<close>

text \<open>
  Every operation on an entry keeps the invariant of the debounced writer, and none
  changes the origin id that the constructor set.
\<close>

lemma timerExpired_write:
  "timerExpired (write_func h) write_wait write_options time (d, (e, s)) =
     (if shouldInvoke write_wait write_options d time
      then (if lastArgs d \<noteq> None
            then (d\<lparr>timerId := None, lastArgs := None, lastInvokeTime := time, result := None\<rparr>,
                  writeToStorage h (e, s))
            else (d\<lparr>timerId := None, lastArgs := None\<rparr>, (e, s)))
      else (d\<lparr>timerId := Some (remainingWait write_wait write_options d time)\<rparr>, (e, s)))"
  by (cases "lastArgs d")
     (auto simp: timerExpired_def trailingEdge_def invokeFunc_def write_func_def startTimer_def)

lemma writeToStorage_writer [simp]:
  "debouncedWrite (fst (writeToStorage h (e, s))) = debouncedWrite e"
  "originId (fst (writeToStorage h (e, s))) = originId e"
  using writeToStorage_result [of h e s] by auto

lemma writer_inv_new: "writer_inv (AtomRegistryEntry_new h cfg st options s0)"
  by (auto simp: writer_inv_def AtomRegistryEntry_new_def Let_def split: sum.splits option.splits)

lemma writer_inv_persistence_effect:
  "writer_inv (fst (persistence_effect h t (e, s)))"
  by (cases "debouncedWrite e")
     (auto simp: writer_inv_def persistence_effect_def debounced_write)

lemma writer_inv_signal_set:
  "writer_inv e \<Longrightarrow> writer_inv (fst (signal_set h t v (e, s)))"
  using writer_inv_persistence_effect [of h t "e\<lparr>signal := v\<rparr>" s]
  by (auto simp: signal_set_def writer_inv_def)

lemma writer_inv_syncWith:
  "writer_inv e \<Longrightarrow> writer_inv (fst (syncWith h t r (e, s)))"
  using writer_inv_signal_set [of e h t "st_value r" s]
  by (auto simp: syncWith_def writer_inv_def split: prod.splits)

lemma writer_inv_timer_fires:
  "writer_inv e \<Longrightarrow> writer_inv (fst (timer_fires h t (e, s)))"
  by (cases "debouncedWrite e")
     (auto simp: writer_inv_def timer_fires_def timerExpired_write split: prod.splits)

lemma writer_inv_flush:
  "writer_inv e \<Longrightarrow> writer_inv (fst (AtomRegistryEntry_flush h t (e, s)))"
  by (cases "debouncedWrite e")
     (auto simp: writer_inv_def AtomRegistryEntry_flush_def flush_write split: prod.splits)

lemma writer_inv_mount:
  "writer_inv e \<Longrightarrow> writer_inv (fst (mount h t (e, s)))"
  by (auto simp: mount_def Let_def setupPersistence_result writer_inv_def)

lemma writer_inv_unmount:
  "writer_inv e \<Longrightarrow> writer_inv (fst (unmount h t (e, s)))"
  by (auto simp: unmount_def Let_def cleanupPersistence_result writer_inv_def split: prod.splits)

lemma writer_inv_pending:
  "writer_inv e \<Longrightarrow> write_pending e \<longleftrightarrow> (\<exists>d. debouncedWrite e = Some d \<and> lastArgs d \<noteq> None)"
  by (auto simp: writer_inv_def write_pending_def split: option.splits)

lemma originId_kept:
  "originId (fst (mount h t (e, s))) = originId e"
  "originId (fst (unmount h t (e, s))) = originId e"
  "originId (fst (syncWith h t r (e, s))) = originId e"
  "originId (fst (timer_fires h t (e, s))) = originId e"
proof -
  show "originId (fst (mount h t (e, s))) = originId e"
    by (simp add: mount_def Let_def setupPersistence_result)
  show "originId (fst (unmount h t (e, s))) = originId e"
    using writeToStorage_result [of h "e\<lparr>refCount := refCount e - 1\<rparr>" s]
    by (auto simp: unmount_def Let_def cleanupPersistence_result)
  show "originId (fst (syncWith h t r (e, s))) = originId e"
    using syncWith_result [of h t r e s] by auto
  show "originId (fst (timer_fires h t (e, s))) = originId e"
    using writeToStorage_result [of h e s]
    by (cases "debouncedWrite e")
       (auto simp: timer_fires_def timerExpired_write split: prod.splits)
qed

section \<open>The cross-tab sync handler\<close>

text \<open>
  Claim C5.  A storage event whose new value parses to a state that carries the local
  tab id as its originId makes the handler return before the merge, whatever the other
  fields of the state are: the module state is unchanged.
\<close>

theorem handleStorageChange_self_echo:
  assumes "newValue event = Some text" and "JSON_parse h text = Some remoteState"
    and "get_prop remoteState ''originId'' = Inr (JStr (localTabId h))"
  shows "handleStorageChange h time event w = Inr (Returned, w)"
proof -
  from assms(3) obtain fs where obj: "remoteState = JObj fs"
    by (cases remoteState) auto
  show ?thesis
    using assms obj
    by (auto simp: handleStorageChange_def split: option.splits sum.splits jsval.splits)
qed

text \<open>The example host is tab "tabA"; the event carries a newer state written by "tabA".\<close>

theorem handleStorageChange_self_echo_witness:
  \<open>handleStorageChange demo_host 500
     \<lparr>event_key = Some ''counter'', newValue = Some ''{"value":7,"version":5,"originId":"tabA"}''\<rparr>
     demo_world = Inr (Returned, demo_world)\<close>
proof -
  let ?ev = \<open>\<lparr>event_key = Some ''counter'',
              newValue = Some ''{"value":7,"version":5,"originId":"tabA"}''\<rparr>\<close>
  let ?r = "JObj [(''value'', JNum 7), (''version'', JNum 5), (''originId'', JStr ''tabA'')]"
  have 1: \<open>newValue ?ev = Some ''{"value":7,"version":5,"originId":"tabA"}''\<close> by simp
  have 2: \<open>JSON_parse demo_host ''{"value":7,"version":5,"originId":"tabA"}'' = Some ?r\<close>
    by (simp add: demo_host_def demo_texts_def)
  have 3: "get_prop ?r ''originId'' = Inr (JStr (localTabId demo_host))"
    by (simp add: demo_host_def)
  show ?thesis
    using handleStorageChange_self_echo [OF 1 2 3, of 500 demo_world] by simp
qed

text \<open>
  The events that the handler ignores: no key or an empty key, no new value, a key that
  is not registered, a text that does not parse, and a parsed value other than null that
  lacks a defined value, a numeric version or a string originId.
\<close>

lemma handleStorageChange_ignores:
  assumes "event_key event = None \<or> event_key event = Some [] \<or> newValue event = None \<or>
           (\<exists>k. event_key event = Some k \<and> getAtomEntryFrom w (localStorageAdapter h) k = None) \<or>
           (\<exists>text. newValue event = Some text \<and>
              (JSON_parse h text = None \<or>
               (\<exists>parsed. JSON_parse h text = Some parsed \<and> parsed \<noteq> JNull \<and> parsed \<noteq> JUndefined \<and>
                  (get_prop parsed ''value'' = Inr JUndefined \<or>
                   (\<forall>n. get_prop parsed ''version'' \<noteq> Inr (JNum n)) \<or>
                   (\<forall>i. get_prop parsed ''originId'' \<noteq> Inr (JStr i))))))"
  shows "handleStorageChange h time event w = Inr (Returned, w)"
proof -
  have np: "get_prop parsed n \<noteq> Inl x" if "parsed \<noteq> JNull" "parsed \<noteq> JUndefined" for parsed n x
    using that by (cases parsed) auto
  show ?thesis
    using assms np
    by (auto simp: handleStorageChange_def split: option.splits sum.splits jsval.splits)
qed

text \<open>
  The JSON text \<open>null\<close> parses, to null, and the validation reads a property of it: for
  a registered key the handler throws.
\<close>

lemma handleStorageChange_on_null:
  assumes "event_key event = Some k" "k \<noteq> []" "newValue event = Some text"
    and "getAtomEntryFrom w (localStorageAdapter h) k = Some entry"
    and "JSON_parse h text = Some JNull"
  shows "handleStorageChange h time event w = Inl TypeError"
  using assms by (simp add: handleStorageChange_def)

text \<open>
  Claim C7 fails on the code.  The key "counter" is registered and the new value of the
  event is the text \<open>null\<close>: the handler ends with a TypeError instead of returning.
\<close>

theorem handleStorageChange_null_throws:
  "getAtomEntryFrom demo_world (localStorageAdapter demo_host) ''counter'' = Some (fst demo_mounted) \<and>
   JSON_parse demo_host ''null'' = Some JNull \<and>
   handleStorageChange demo_host 500 \<lparr>event_key = Some ''counter'', newValue = Some ''null''\<rparr> demo_world
     = Inl TypeError"
  by (simp add: handleStorageChange_def getAtomEntryFrom_def demo_world_def demo_host_def demo_texts_def)

section \<open>The registry\<close>

text \<open>
  For a registered key the outcome of \<open>acquireEntry\<close> does not depend on the options; a
  call that returns hands back the registered entry and leaves the module state as it
  was; and the call returns in a production build, and elsewhere when both default
  values can be serialised.
\<close>

lemma acquireEntry_existing:
  assumes "storageRegistryMap w st = Some m" and "m (key atomConfig) = Some existing"
    and "key atomConfig \<noteq> []"
  shows "acquireEntry h atomConfig st initOptions w = acquireEntry h atomConfig st otherOptions w"
    and "acquireEntry h atomConfig st initOptions w = Inr (e', w') \<Longrightarrow> e' = existing \<and> w' = w"
    and "NODE_ENV h = Some ''production'' \<or>
         (JSON_stringify h (defaultValue (config existing)) \<noteq> None \<and>
          JSON_stringify h (defaultValue atomConfig) \<noteq> None) \<Longrightarrow>
         acquireEntry h atomConfig st initOptions w = Inr (existing, w)"
  using assms
  by (auto simp: acquireEntry_def getRegistryForStorage_def split: option.splits if_splits)

text \<open>
  Claim C10 fails on the code.  In a development build the first \<open>acquireEntry\<close> for an
  atom whose default value is a BigInt registers its entry; the second call, with the
  same arguments, throws a TypeError from the serialisation of the default value instead
  of returning the registered entry.
\<close>

theorem acquireEntry_existing_throws:
  "acquireEntry demo_host bigint_config 0 demo_options empty_world = Inr (bigint_entry, bigint_world) \<and>
   acquireEntry demo_host bigint_config 0 demo_options bigint_world = Inl TypeError"
  by (simp add: acquireEntry_def getRegistryForStorage_def empty_world_def bigint_world_def
        bigint_entry_def bigint_config_def demo_options_def demo_host_def mem_adapter_def
        AtomRegistryEntry_new_def Let_def)

end
